theory Spec2Isabelle
  imports Main "HOL-Library.Word"
begin

section \<open>Shared vocabulary\<close>

text \<open>
  Go strings are byte sequences: \<open>string\<close> (a \<open>char list\<close>), whose \<open>length\<close> is Go's
  \<open>len\<close>.  An \<open>int64\<close> is a 64-bit word.  A Go \<open>error\<close> result is an \<open>error option\<close>
  (\<open>None\<close> is \<open>nil\<close>); a pointer that may be \<open>nil\<close> is an \<open>option\<close> as well.
\<close>

type_synonym int64 = "64 word"
type_synonym uint64 = "64 word"

text \<open>
  A value of Go's \<open>interface{}\<close> that is not \<open>nil\<close>; a value that may be \<open>nil\<close> is an
  \<open>any option\<close>.
\<close>

datatype any = AString string | AInt int | ABool bool

datatype error =
    errNilLogData
  | errLogMessageTooLarge
  | errNilLogBuffer
  | errNoApplication
  | ErrAlreadyEnded
  | ErrorsLocallyDisabled
  | ErrorsRemotelyDisabled
  | ErrNilError
  | ErrExternal string  \<comment> \<open>an error value produced by a collaborator outside the sources\<close>

text \<open>
  How a call ends: it returns an error result (\<open>Returns\<close>), it returns a byte count
  and an error (\<open>ReturnsWrite\<close>, for \<open>Write\<close>), it returns nothing
  (\<open>ReturnsNothing\<close>, for \<open>WriteHeader\<close>), or it panics.
\<close>

datatype panic = NilPointerDereference | Repanic any

datatype outcome =
    Returns "error option"
  | ReturnsWrite int "error option"
  | ReturnsNothing
  | Panics panic

section \<open>Log events: \<open>v3/newrelic/log_event.go\<close>\<close>

definition MaxLogLength :: nat where
  "MaxLogLength = 32768"

text \<open>
  The constants of package \<open>internal/logcontext\<close> are declared outside the sources; the
  functions below take them as a record.
\<close>

record logcontext =
  LogSeverityFieldName :: string
  LogMessageFieldName :: string
  LogSpanIDFieldName :: string
  LogTraceIDFieldName :: string
  LogTimestampFieldName :: string
  LogSeverityUnknown :: string

record 'p logEvent =
  priority :: 'p
  timestamp :: int64
  severity :: string
  message :: string
  spanID :: string
  traceID :: string

record LogData =
  Timestamp :: int64
  Severity :: string
  Message :: string

subsection \<open>\<open>logEvent.WriteJSON\<close>\<close>

text \<open>
  Modelled from the spec: \<open>jsonFieldsWriter\<close> with its methods \<open>stringField\<close> and
  \<open>intField\<close>, and the value encoders of package \<open>jsonx\<close>, are not among the sources.
  The spec calls the result "an object with fields"; the writer's \<open>needsComma\<close> flag is
  visible in \<open>WriteJSON\<close>.  A field is written as: a comma when \<open>needsComma\<close> is set
  (the flag is set otherwise), the encoded key, a colon, the encoded value.  The two
  encoders append the encoding of their argument to the buffer; the encodings themselves
  (\<open>encodeString\<close>, \<open>encodeInt\<close>) are parameters.
\<close>

record jsonx =
  encodeString :: "string \<Rightarrow> string"
  encodeInt :: "int64 \<Rightarrow> string"

definition AppendString :: "jsonx \<Rightarrow> string \<Rightarrow> string \<Rightarrow> string" where
  "AppendString jx b s = b @ encodeString jx s"

definition AppendInt :: "jsonx \<Rightarrow> string \<Rightarrow> int64 \<Rightarrow> string" where
  "AppendInt jx b n = b @ encodeInt jx n"

record jsonFieldsWriter =
  buf :: string
  needsComma :: bool

definition WriteByte :: "char \<Rightarrow> string \<Rightarrow> string" where
  "WriteByte c b = b @ [c]"

definition WriteString :: "string \<Rightarrow> string \<Rightarrow> string" where
  "WriteString s b = b @ s"

definition addKey :: "jsonx \<Rightarrow> string \<Rightarrow> jsonFieldsWriter \<Rightarrow> jsonFieldsWriter" where
  "addKey jx key w =
     (let w1 = (if needsComma w then w\<lparr>buf := WriteByte CHR '','' (buf w)\<rparr>
                else w\<lparr>needsComma := True\<rparr>);
          w2 = w1\<lparr>buf := AppendString jx (buf w1) key\<rparr>
      in w2\<lparr>buf := WriteByte CHR '':'' (buf w2)\<rparr>)"

definition stringField :: "jsonx \<Rightarrow> string \<Rightarrow> string \<Rightarrow> jsonFieldsWriter \<Rightarrow> jsonFieldsWriter" where
  "stringField jx key val w =
     (let w1 = addKey jx key w in w1\<lparr>buf := AppendString jx (buf w1) val\<rparr>)"

definition intField :: "jsonx \<Rightarrow> string \<Rightarrow> int64 \<Rightarrow> jsonFieldsWriter \<Rightarrow> jsonFieldsWriter" where
  "intField jx key val w =
     (let w1 = addKey jx key w in w1\<lparr>buf := AppendInt jx (buf w1) val\<rparr>)"

text \<open>
  \<open>WriteJSON\<close> appends to the caller's buffer; the model takes the buffer's content and
  returns the new content.
\<close>

definition WriteJSON :: "logcontext \<Rightarrow> jsonx \<Rightarrow> 'p logEvent \<Rightarrow> string \<Rightarrow> string" where
  "WriteJSON lc jx e b =
     (let w0 = \<lparr>buf = WriteByte CHR ''{'' b, needsComma = False\<rparr>;
          w1 = stringField jx (LogSeverityFieldName lc) (severity e) w0;
          w2 = stringField jx (LogMessageFieldName lc) (message e) w1;
          w3 = (if length (spanID e) > 0
                then stringField jx (LogSpanIDFieldName lc) (spanID e) w2 else w2);
          w4 = (if length (traceID e) > 0
                then stringField jx (LogTraceIDFieldName lc) (traceID e) w3 else w3);
          w5 = w4\<lparr>needsComma := False\<rparr>;
          w6 = w5\<lparr>buf := WriteByte CHR '','' (buf w5)\<rparr>;
          w7 = intField jx (LogTimestampFieldName lc) (timestamp e) w6
      in WriteByte CHR ''}'' (buf w7))"

subsection \<open>\<open>LogData.toLogEvent\<close>\<close>

text \<open>
  The receiver is a pointer: \<open>None\<close> is \<open>nil\<close>, and the assignments to its fields are
  visible to the caller, so the model returns the record the pointer refers to after the
  call next to the result.  \<open>strings.TrimSpace\<close> (standard library), the clock reading
  \<open>int64(timeToUnixMilliseconds(time.Now()))\<close> and the value of \<open>newPriority()\<close> are
  parameters.
\<close>

definition toLogEvent ::
  "logcontext \<Rightarrow> (string \<Rightarrow> string) \<Rightarrow> int64 \<Rightarrow> 'p \<Rightarrow> LogData option
     \<Rightarrow> LogData option \<times> (error + 'p logEvent)" where
  "toLogEvent lc TrimSpace nowMs newPriority data =
     (case data of
        None \<Rightarrow> (None, Inl errNilLogData)
      | Some d0 \<Rightarrow>
          (let d1 = (if Severity d0 = [] then d0\<lparr>Severity := LogSeverityUnknown lc\<rparr> else d0)
           in if length (Message d1) > MaxLogLength then (Some d1, Inl errLogMessageTooLarge)
              else
                (let d2 = (if Timestamp d1 = 0 then d1\<lparr>Timestamp := nowMs\<rparr> else d1);
                     d3 = d2\<lparr>Message := TrimSpace (Message d2)\<rparr>;
                     d4 = d3\<lparr>Severity := TrimSpace (Severity d3)\<rparr>
                 in (Some d4,
                     Inr \<lparr>priority = newPriority, timestamp = Timestamp d4,
                          severity = Severity d4, message = Message d4,
                          spanID = [], traceID = []\<rparr>))))"

text \<open>
  A concrete trimmer for evaluating examples: it strips the six ASCII white-space bytes
  of Go's \<open>asciiSpace\<close> table from both ends.
\<close>

definition asciiSpace :: "char \<Rightarrow> bool" where
  "asciiSpace c = (c \<in> set [CHR 0x09, CHR 0x0A, CHR 0x0B, CHR 0x0C, CHR 0x0D, CHR '' ''])"

definition trimAscii :: "string \<Rightarrow> string" where
  "trimAscii s = rev (dropWhile asciiSpace (rev (dropWhile asciiSpace s)))"

subsection \<open>\<open>EnrichLog\<close> and \<open>appendLinkingMetadata\<close>\<close>

record linkingMetadata =
  md_traceID :: string
  md_spanID :: string
  md_entityGUID :: string
  md_hostname :: string
  md_entityName :: string

definition appendLinkingMetadata :: "linkingMetadata \<Rightarrow> string \<Rightarrow> string" where
  "appendLinkingMetadata md b =
     (if md_entityGUID md = [] \<or> md_entityName md = [] \<or> md_hostname md = [] then b
      else
        (let b1 = WriteString '' NR-LINKING|'' b
         in if md_traceID md \<noteq> [] \<and> md_spanID md \<noteq> [] then
              WriteByte CHR ''|'' (WriteString (md_entityName md)
             (WriteByte CHR ''|'' (WriteString (md_spanID md)
             (WriteByte CHR ''|'' (WriteString (md_traceID md)
             (WriteByte CHR ''|'' (WriteString (md_hostname md)
             (WriteByte CHR ''|'' (WriteString (md_entityGUID md) b1)))))))))
            else
              WriteByte CHR ''|'' (WriteString (md_entityName md)
             (WriteByte CHR ''|'' (WriteString (md_hostname md)
             (WriteByte CHR ''|'' (WriteString (md_entityGUID md) b1)))))))"

text \<open>
  The types \<open>Application\<close>, \<open>Transaction\<close>, \<open>app\<close> and \<open>appRun\<close> are declared outside the
  sources; the records hold what \<open>EnrichLog\<close> reads of them.  \<open>app_getState\<close> is the
  result of \<open>app.getState()\<close>; \<open>txn_Application\<close> is the result of
  \<open>txn.Application()\<close> (a pointer) and \<open>txn_TraceMetadata\<close> that of
  \<open>txn.thread.GetTraceMetadata()\<close>.
\<close>

record appRun =
  Reply_EntityGUID :: string
  Config_ApplicationLogging_Enabled :: bool
  Config_ApplicationLogging_LocalDecorating_Enabled :: bool

record app =
  config_AppName :: string
  config_hostname :: string
  app_getState :: "error + appRun"

record Application =
  app_app :: "app option"

record Transaction =
  txn_Application :: "Application option"
  txn_TraceMetadata_TraceID :: string
  txn_TraceMetadata_SpanID :: string

record logEnricherConfig =
  cfg_app :: "Application option"
  cfg_txn :: "Transaction option"

type_synonym enricherOption = "logEnricherConfig \<Rightarrow> logEnricherConfig"

definition FromApp :: "Application option \<Rightarrow> enricherOption" where
  "FromApp a = (\<lambda>cfg. cfg\<lparr>cfg_app := a\<rparr>)"

definition FromTxn :: "Transaction option \<Rightarrow> enricherOption" where
  "FromTxn t = (\<lambda>cfg. cfg\<lparr>cfg_txn := t\<rparr>)"

text \<open>
  \<open>EnrichLog\<close> returns its error result, or it panics on a \<open>nil\<close> pointer: reading
  \<open>app.app\<close> when \<open>txn.Application()\<close> gave \<open>nil\<close>.  The first component of the
  result is the caller's buffer after the call.
\<close>

definition EnrichLog :: "string option \<Rightarrow> enricherOption \<Rightarrow> string option \<times> outcome" where
  "EnrichLog buffer opts =
     (let config = opts \<lparr>cfg_app = None, cfg_txn = None\<rparr> in
      case buffer of
        None \<Rightarrow> (None, Returns (Some errNilLogBuffer))
      | Some b \<Rightarrow>
          (let md = \<lparr>md_traceID = [], md_spanID = [], md_entityGUID = [],
                     md_hostname = [], md_entityName = []\<rparr>;
               resolved =
                 (case cfg_app config of
                    Some a \<Rightarrow> Some (Some a, md)
                  | None \<Rightarrow>
                      (case cfg_txn config of
                         Some t \<Rightarrow>
                           Some (txn_Application t,
                                 md\<lparr>md_spanID := txn_TraceMetadata_SpanID t,
                                    md_traceID := txn_TraceMetadata_TraceID t\<rparr>)
                       | None \<Rightarrow> None))
           in case resolved of
                None \<Rightarrow> (Some b, Returns (Some errNoApplication))
              | Some (None, md1) \<Rightarrow> (Some b, Panics NilPointerDereference)
              | Some (Some a, md1) \<Rightarrow>
                  (case app_app a of
                     None \<Rightarrow> (Some b, Returns (Some errNoApplication))
                   | Some ap \<Rightarrow>
                       (case app_getState ap of
                          Inl err \<Rightarrow> (Some b, Returns (Some err))
                        | Inr reply \<Rightarrow>
                            (let md2 = md1\<lparr>md_entityGUID := Reply_EntityGUID reply,
                                          md_entityName := config_AppName ap,
                                          md_hostname := config_hostname ap\<rparr>
                             in if Config_ApplicationLogging_Enabled reply \<and>
                                   Config_ApplicationLogging_LocalDecorating_Enabled reply
                                then (Some (appendLinkingMetadata md2 b), Returns None)
                                else (Some b, Returns None))))))"

section \<open>Transactions: \<open>package internal\<close>\<close>

subsection \<open>Data\<close>

text \<open>
  A \<open>time.Time\<close> is a count of nanoseconds, a \<open>time.Duration\<close> a count of nanoseconds
  within the range of \<open>int64\<close>: \<open>Time.Sub\<close> (standard library) saturates there.
\<close>

type_synonym time = int
type_synonym duration = int

definition time_Sub :: "time \<Rightarrow> time \<Rightarrow> duration" where
  "time_Sub t u = max (- (2 ^ 63)) (min (2 ^ 63 - 1) (t - u))"

text \<open>
  Modelled from the spec: the type \<open>apdexZone\<close> is declared outside the sources, which
  name \<open>apdexNone\<close> and \<open>apdexFailing\<close> only.  The spec's glossary gives the zones
  "satisfied, tolerated, frustrated/failing, none": frustrated and failing are one zone.
\<close>

datatype apdexZone = apdexNone | apdexSatisfying | apdexTolerating | apdexFailing

text \<open>
  Modelled from the spec: \<open>calculateApdexZone\<close> is not among the sources.  The spec:
  "standard three-way banding (satisfied \<le> threshold; tolerated \<le> 4\<times> threshold;
  frustrated beyond)".
\<close>

definition calculateApdexZone :: "duration \<Rightarrow> duration \<Rightarrow> apdexZone" where
  "calculateApdexZone threshold d =
     (if d \<le> threshold then apdexSatisfying
      else if d \<le> 4 * threshold then apdexTolerating
      else apdexFailing)"

text \<open>What the functions read of \<open>api.Config\<close>, \<open>ConnectReply\<close> and \<open>http.Request\<close>.\<close>

record Config =
  ErrorCollector_Enabled :: bool
  ErrorCollector_CaptureEvents :: bool
  ErrorCollector_IgnoreStatusCodes :: "int list"
  TransactionEvents_Enabled :: bool
  HighSecurity :: bool
  HostDisplayName :: string

record ConnectReply =
  RunID :: string
  CollectErrors :: bool
  CollectAnalyticsEvents :: bool
  CollectErrorEvents :: bool

record request =
  Method :: string
  Header :: "string \<Rightarrow> string"  \<comment> \<open>\<open>Header.Get\<close>\<close>

record txnError =
  stack :: string
  when' :: time
  msg :: string
  klass :: string

record agentAttributes =
  agent_HostDisplayName :: string
  RequestMethod :: string
  RequestAcceptHeader :: string
  RequestContentType :: string
  RequestHeadersHost :: string
  RequestHeadersUserAgent :: string
  RequestHeadersReferer :: string
  RequestContentLength :: int
  ResponseHeadersContentType :: string
  ResponseHeadersContentLength :: int
  ResponseCode :: string

record attributes =
  agent :: agentAttributes
  user :: "(string \<times> any) list"

typedecl attributeConfig

record txnInput =
  in_Request :: "request option"
  in_Config :: Config
  in_Reply :: ConnectReply
  in_attrConfig :: attributeConfig

text \<open>
  The transaction record.  The embedded \<open>txnInput\<close> appears as the fields \<open>Request\<close>,
  \<open>Config\<close>, \<open>Reply\<close>; its \<open>Writer\<close> and \<open>Consumer\<close> are references to objects outside
  the transaction, never reassigned, and the objects themselves are part of the
  \<open>world\<close> below.  The lazily initialised \<open>errors\<close> is \<open>None\<close> while the slice is
  \<open>nil\<close>.  The mutex is not modelled: every operation runs as one step, which is what
  holding the lock for the whole call gives.
\<close>

record txn =
  Request :: "request option"
  Config :: Config
  Reply :: ConnectReply
  finished :: bool
  queuing :: duration
  start :: time
  name :: string
  isWeb :: bool
  ignore :: bool
  errors :: "txnError list option"
  errorsSeen :: uint64
  attrs :: attributes
  wroteHeader :: bool
  stop :: time
  duration :: duration
  finalName :: string
  zone :: apdexZone
  apdexThreshold :: duration

text \<open>
  The transaction, the response writer behind \<open>txn.Writer\<close> (of any type \<open>'w\<close>) and the
  calls the harvest consumer behind \<open>txn.Consumer\<close> has received: each
  \<open>consume(runID, txn)\<close> is recorded with the transaction as it was at the call.
\<close>

record 'w world =
  the_txn :: txn
  writer :: 'w
  consumed :: "(string \<times> txn) list"

text \<open>
  The collaborators outside the sources, as parameters: the standard library's
  \<open>strconv\<close>, the helpers of this package that are not among the sources, the bounded
  error collection's \<open>Add\<close>, and the three methods of the \<open>http.ResponseWriter\<close>
  interface.  The clock (\<open>time.Now()\<close>) and the captured stack (\<open>getStackTrace\<close>) are
  arguments of each operation that reads them.
\<close>

record 'w externals =
  strconv_Atoi :: "string \<Rightarrow> int option"
  strconv_Itoa :: "int \<Rightarrow> string"
  safeURLFromString :: "string \<Rightarrow> string"
  queueDuration :: "(string \<Rightarrow> string) \<Rightarrow> time \<Rightarrow> duration"
  newAttributes :: "attributeConfig \<Rightarrow> attributes"
  CreateFullTxnName :: "string \<Rightarrow> ConnectReply \<Rightarrow> bool \<Rightarrow> string"
  calculateApdexThreshold :: "ConnectReply \<Rightarrow> string \<Rightarrow> duration"
  txnErrorFromResponseCode :: "int \<Rightarrow> txnError"
  txnErrorFromPanic :: "any \<Rightarrow> txnError"
  txnErrorFromError :: "string \<Rightarrow> txnError"
  txnErrors_Add :: "txnError \<Rightarrow> txnError list \<Rightarrow> txnError list"
  addUserAttribute :: "attributes \<Rightarrow> string \<Rightarrow> any option \<Rightarrow> attributes \<times> error option"
  Writer_Header :: "'w \<Rightarrow> string \<Rightarrow> string"
  Writer_Write :: "'w \<Rightarrow> string \<Rightarrow> 'w \<times> int \<times> error option"
  Writer_WriteHeader :: "'w \<Rightarrow> int \<Rightarrow> 'w"

subsection \<open>\<open>newTxn\<close>, \<open>freezeName\<close>, \<open>getsApdex\<close>\<close>

definition newTxn :: "'w externals \<Rightarrow> time \<Rightarrow> txnInput \<Rightarrow> string \<Rightarrow> txn" where
  "newTxn ext now input nm =
     (let t0 = \<lparr>Request = in_Request input, Config = in_Config input, Reply = in_Reply input,
                finished = False, queuing = 0, start = now, name = nm,
                isWeb = (in_Request input \<noteq> None), ignore = False, errors = None,
                errorsSeen = 0, attrs = newAttributes ext (in_attrConfig input),
                wroteHeader = False, stop = 0, duration = 0, finalName = [],
                zone = apdexNone, apdexThreshold = 0\<rparr>;
          t1 = (case Request t0 of
                  None \<Rightarrow> t0
                | Some r \<Rightarrow>
                    (let h = Header r;
                         a1 = (agent (attrs t0))
                                \<lparr>RequestMethod := Method r,
                                 RequestAcceptHeader := h ''Accept'',
                                 RequestContentType := h ''Content-Type'',
                                 RequestHeadersHost := h ''Host'',
                                 RequestHeadersUserAgent := h ''User-Agent'',
                                 RequestHeadersReferer := safeURLFromString ext (h ''Referer'')\<rparr>;
                         cl = h ''Content-Length'';
                         a2 = (if cl \<noteq> [] then
                                 (case strconv_Atoi ext cl of
                                    Some x \<Rightarrow> a1\<lparr>RequestContentLength := x\<rparr>
                                  | None \<Rightarrow> a1)
                               else a1)
                     in t0\<lparr>attrs := (attrs t0)\<lparr>agent := a2\<rparr>,
                           queuing := queueDuration ext h (start t0)\<rparr>))
      in t1\<lparr>attrs := (attrs t1)\<lparr>agent :=
              (agent (attrs t1))\<lparr>agent_HostDisplayName := HostDisplayName (Config t1)\<rparr>\<rparr>\<rparr>)"

definition freezeName :: "'w externals \<Rightarrow> txn \<Rightarrow> txn" where
  "freezeName ext t =
     (if ignore t \<or> finalName t \<noteq> [] then t
      else
        (let t1 = t\<lparr>finalName := CreateFullTxnName ext (name t) (Reply t) (isWeb t)\<rparr>
         in if finalName t1 = [] then t1\<lparr>ignore := True\<rparr> else t1))"

definition getsApdex :: "txn \<Rightarrow> bool" where
  "getsApdex t = isWeb t"

subsection \<open>\<open>noticeErrorInternal\<close>\<close>

definition HighSecurityErrorMsg :: string where
  "HighSecurityErrorMsg = ''message removed by high security setting''"

text \<open>
  Modelled from the spec: \<open>newTxnErrors\<close> and the type \<open>txnErrors\<close> are not among the
  sources.  The spec: "lazily allocate the bounded error collection on first use"; the
  new collection holds no record.  Its capacity and what \<open>Add\<close> does once it is reached
  are the collection's own (the parameter \<open>txnErrors_Add\<close>).
\<close>

definition newTxnErrors :: "txnError list" where
  "newTxnErrors = []"

definition noticeErrorInternal ::
  "'w externals \<Rightarrow> time \<Rightarrow> txnError \<Rightarrow> txn \<Rightarrow> txn \<times> error option" where
  "noticeErrorInternal ext now err t =
     (let t1 = t\<lparr>errorsSeen := errorsSeen t + 1\<rparr>
      in if \<not> ErrorCollector_Enabled (Config t1) then (t1, Some ErrorsLocallyDisabled)
         else if \<not> CollectErrors (Reply t1) then (t1, Some ErrorsRemotelyDisabled)
         else
           (let t2 = (if errors t1 = None then t1\<lparr>errors := Some newTxnErrors\<rparr> else t1);
                err1 = (if HighSecurity (Config t2) then err\<lparr>msg := HighSecurityErrorMsg\<rparr>
                        else err);
                err2 = err1\<lparr>when' := now\<rparr>
            in (t2\<lparr>errors := map_option (txnErrors_Add ext err2) (errors t2)\<rparr>, None)))"

subsection \<open>The response writer: \<open>headersJustWritten\<close>, \<open>Write\<close>, \<open>WriteHeader\<close>\<close>

fun ignoreStatusCodes_loop :: "int \<Rightarrow> int list \<Rightarrow> bool" where
  "ignoreStatusCodes_loop code [] = True"
| "ignoreStatusCodes_loop code (ignoreCode # rest) =
     (if code = ignoreCode then False else ignoreStatusCodes_loop code rest)"

definition responseCodeIsError :: "Config \<Rightarrow> int \<Rightarrow> bool" where
  "responseCodeIsError cfg code =
     (if code < 400 then False
      else ignoreStatusCodes_loop code (ErrorCollector_IgnoreStatusCodes cfg))"

definition statusCodeTable :: "(int \<times> string) list" where
  "statusCodeTable =
     [(100, ''100''), (101, ''101''),
      (200, ''200''), (201, ''201''), (202, ''202''), (203, ''203''), (204, ''204''),
      (205, ''205''), (206, ''206''),
      (300, ''300''), (301, ''301''), (302, ''302''), (303, ''303''), (304, ''304''),
      (305, ''305''), (307, ''307''),
      (400, ''400''), (401, ''401''), (402, ''402''), (403, ''403''), (404, ''404''),
      (405, ''405''), (406, ''406''), (407, ''407''), (408, ''408''), (409, ''409''),
      (410, ''410''), (411, ''411''), (412, ''412''), (413, ''413''), (414, ''414''),
      (415, ''415''), (416, ''416''), (417, ''417''), (418, ''418''), (428, ''428''),
      (429, ''429''), (431, ''431''), (451, ''451''),
      (500, ''500''), (501, ''501''), (502, ''502''), (503, ''503''), (504, ''504''),
      (505, ''505''), (511, ''511'')]"

text \<open>Reading a Go map at a missing key gives the zero value, here the empty string.\<close>

definition statusCodeLookup :: "int \<Rightarrow> string" where
  "statusCodeLookup code = (case map_of statusCodeTable code of None \<Rightarrow> [] | Some s \<Rightarrow> s)"

text \<open>
  \<open>headersJustWritten\<close> reads the headers of the writer (\<open>txn.Writer.Header()\<close>) and
  changes the transaction only.
\<close>

definition headersJustWritten ::
  "'w externals \<Rightarrow> time \<Rightarrow> string \<Rightarrow> 'w \<Rightarrow> txn \<Rightarrow> int \<Rightarrow> txn" where
  "headersJustWritten ext now stk w t code =
     (if finished t then t
      else if wroteHeader t then t
      else
        (let t1 = t\<lparr>wroteHeader := True\<rparr>;
             h = Writer_Header ext w;
             a1 = (agent (attrs t1))\<lparr>ResponseHeadersContentType := h ''Content-Type''\<rparr>;
             val = h ''Content-Length'';
             a2 = (if val \<noteq> [] then
                     (case strconv_Atoi ext val of
                        Some x \<Rightarrow> a1\<lparr>ResponseHeadersContentLength := x\<rparr>
                      | None \<Rightarrow> a1)
                   else a1);
             a3 = a2\<lparr>ResponseCode := statusCodeLookup code\<rparr>;
             a4 = (if ResponseCode a3 = [] then a3\<lparr>ResponseCode := strconv_Itoa ext code\<rparr>
                   else a3);
             t2 = t1\<lparr>attrs := (attrs t1)\<lparr>agent := a4\<rparr>\<rparr>
         in if responseCodeIsError (Config t2) code then
              (let e = txnErrorFromResponseCode ext code;
                   e1 = e\<lparr>stack := stk\<rparr>
               in fst (noticeErrorInternal ext now e1 t2))
            else t2))"

definition Write :: "'w externals \<Rightarrow> time \<Rightarrow> string \<Rightarrow> string \<Rightarrow> 'w world \<Rightarrow> 'w world \<times> outcome" where
  "Write ext now stk b wd =
     (case Writer_Write ext (writer wd) b of
        (w1, n, err) \<Rightarrow>
          (wd\<lparr>writer := w1, the_txn := headersJustWritten ext now stk w1 (the_txn wd) 200\<rparr>,
           ReturnsWrite n err))"

definition WriteHeader :: "'w externals \<Rightarrow> time \<Rightarrow> string \<Rightarrow> int \<Rightarrow> 'w world \<Rightarrow> 'w world \<times> outcome" where
  "WriteHeader ext now stk code wd =
     (let w1 = Writer_WriteHeader ext (writer wd) code
      in (wd\<lparr>writer := w1, the_txn := headersJustWritten ext now stk w1 (the_txn wd) code\<rparr>,
          ReturnsNothing))"

subsection \<open>\<open>End\<close>\<close>

text \<open>
  \<open>r\<close> is what \<open>recover()\<close> returns: the value of the panic in flight when \<open>End\<close> runs
  as a deferred call, \<open>None\<close> otherwise.  \<open>nowErr\<close> is the clock reading inside
  \<open>noticeErrorInternal\<close>, \<open>nowStop\<close> the one stored in \<open>stop\<close>.  The debug log line is
  left out.
\<close>

definition End ::
  "'w externals \<Rightarrow> time \<Rightarrow> time \<Rightarrow> string \<Rightarrow> any option \<Rightarrow> 'w world \<Rightarrow> 'w world \<times> outcome" where
  "End ext nowErr nowStop stk r wd =
     (let t = the_txn wd in
      if finished t then (wd, Returns (Some ErrAlreadyEnded))
      else
        (let t1 = t\<lparr>finished := True\<rparr>;
             t2 = (case r of
                     None \<Rightarrow> t1
                   | Some v \<Rightarrow>
                       (let e = txnErrorFromPanic ext v;
                            e1 = e\<lparr>stack := stk\<rparr>
                        in fst (noticeErrorInternal ext nowErr e1 t1)));
             t3 = t2\<lparr>stop := nowStop\<rparr>;
             t4 = t3\<lparr>duration := time_Sub (stop t3) (start t3)\<rparr>;
             t5 = freezeName ext t4;
             t6 = (if getsApdex t5 then
                     (let t5a = t5\<lparr>apdexThreshold :=
                                  calculateApdexThreshold ext (Reply t5) (finalName t5)\<rparr>
                      in if errorsSeen t5a > 0 then t5a\<lparr>zone := apdexFailing\<rparr>
                         else t5a\<lparr>zone := calculateApdexZone (apdexThreshold t5a) (duration t5a)\<rparr>)
                   else t5\<lparr>zone := apdexNone\<rparr>);
             wd1 = (if \<not> ignore t6
                    then wd\<lparr>the_txn := t6, consumed := consumed wd @ [(RunID (Reply t6), t6)]\<rparr>
                    else wd\<lparr>the_txn := t6\<rparr>)
         in (wd1, case r of None \<Rightarrow> Returns None | Some v \<Rightarrow> Panics (Repanic v))))"

subsection \<open>\<open>AddAttribute\<close>, \<open>NoticeError\<close>, \<open>SetName\<close>\<close>

definition AddAttribute :: "'w externals \<Rightarrow> string \<Rightarrow> any option \<Rightarrow> 'w world \<Rightarrow> 'w world \<times> outcome" where
  "AddAttribute ext nm v wd =
     (let t = the_txn wd in
      if finished t then (wd, Returns (Some ErrAlreadyEnded))
      else
        (case addUserAttribute ext (attrs t) nm v of
           (a, res) \<Rightarrow> (wd\<lparr>the_txn := t\<lparr>attrs := a\<rparr>\<rparr>, Returns res)))"

text \<open>
  The argument of \<open>NoticeError\<close> is a Go \<open>error\<close>: \<open>None\<close> is \<open>nil\<close>, and \<open>Some s\<close> an
  error value, which \<open>txnErrorFromError\<close> turns into a record.
\<close>

definition NoticeError ::
  "'w externals \<Rightarrow> time \<Rightarrow> string \<Rightarrow> string option \<Rightarrow> 'w world \<Rightarrow> 'w world \<times> outcome" where
  "NoticeError ext now stk err wd =
     (let t = the_txn wd in
      if finished t then (wd, Returns (Some ErrAlreadyEnded))
      else
        (case err of
           None \<Rightarrow> (wd, Returns (Some ErrNilError))
         | Some x \<Rightarrow>
             (let e = txnErrorFromError ext x;
                  e1 = e\<lparr>stack := stk\<rparr>
              in case noticeErrorInternal ext now e1 t of
                   (t1, res) \<Rightarrow> (wd\<lparr>the_txn := t1\<rparr>, Returns res))))"

definition SetName :: "string \<Rightarrow> 'w world \<Rightarrow> 'w world \<times> outcome" where
  "SetName nm wd =
     (let t = the_txn wd in
      if finished t then (wd, Returns (Some ErrAlreadyEnded))
      else (wd\<lparr>the_txn := t\<lparr>name := nm\<rparr>\<rparr>, Returns None))"

subsection \<open>Sequences of calls on one transaction\<close>

text \<open>
  The public surface as data, for statements about every sequence of calls.  A call
  carries what it reads from outside: the clock readings, the captured stack, and for
  \<open>End\<close> the result of \<open>recover()\<close>.
\<close>

datatype call =
    CallSetName string
  | CallAddAttribute string "any option"
  | CallNoticeError time string "string option"
  | CallWrite time string string
  | CallWriteHeader time string int
  | CallEnd time time string "any option"

fun perform :: "'w externals \<Rightarrow> call \<Rightarrow> 'w world \<Rightarrow> 'w world \<times> outcome" where
  "perform ext (CallSetName nm) wd = SetName nm wd"
| "perform ext (CallAddAttribute nm v) wd = AddAttribute ext nm v wd"
| "perform ext (CallNoticeError now stk err) wd = NoticeError ext now stk err wd"
| "perform ext (CallWrite now stk b) wd = Write ext now stk b wd"
| "perform ext (CallWriteHeader now stk code) wd = WriteHeader ext now stk code wd"
| "perform ext (CallEnd nowErr nowStop stk r) wd = End ext nowErr nowStop stk r wd"

text \<open>The world after a sequence of calls, and the outcome of each call in order.\<close>

fun run :: "'w externals \<Rightarrow> call list \<Rightarrow> 'w world \<Rightarrow> 'w world \<times> outcome list" where
  "run ext [] wd = (wd, [])"
| "run ext (c # cs) wd =
     (case perform ext c wd of
        (wd1, res) \<Rightarrow> (case run ext cs wd1 of (wd2, rs) \<Rightarrow> (wd2, res # rs)))"

definition newWorld :: "'w externals \<Rightarrow> time \<Rightarrow> txnInput \<Rightarrow> string \<Rightarrow> 'w \<Rightarrow> 'w world" where
  "newWorld ext now input nm w = \<lparr>the_txn = newTxn ext now input nm, writer = w, consumed = []\<rparr>"

subsection \<open>Observations used in the statements\<close>

text \<open>
  The records held by the error collection, as an iteration over \<open>txn.errors\<close> sees
  them: none while the slice is \<open>nil\<close>.
\<close>

definition storedErrors :: "txn \<Rightarrow> txnError list" where
  "storedErrors t = (case errors t of None \<Rightarrow> [] | Some xs \<Rightarrow> xs)"

definition redacted :: "txn \<Rightarrow> bool" where
  "redacted t = list_all (\<lambda>e. msg e = HighSecurityErrorMsg) (storedErrors t)"

text \<open>Calls by kind.\<close>

fun isEnd :: "call \<Rightarrow> bool" where
  "isEnd (CallEnd nowErr nowStop stk r) = True"
| "isEnd c = False"

fun isHeaderWrite :: "call \<Rightarrow> bool" where
  "isHeaderWrite (CallWrite now stk b) = True"
| "isHeaderWrite (CallWriteHeader now stk code) = True"
| "isHeaderWrite c = False"

section \<open>Example values\<close>

text \<open>Concrete inputs at which the theorems below are evaluated.\<close>

definition exampleLogcontext :: logcontext where
  "exampleLogcontext =
     \<lparr>LogSeverityFieldName = ''level'', LogMessageFieldName = ''message'',
      LogSpanIDFieldName = ''span.id'', LogTraceIDFieldName = ''trace.id'',
      LogTimestampFieldName = ''timestamp'', LogSeverityUnknown = ''UNKNOWN''\<rparr>"

definition exampleApplication :: Application where
  "exampleApplication =
     \<lparr>app_app = Some \<lparr>config_AppName = ''N'', config_hostname = ''H'',
         app_getState = Inr \<lparr>Reply_EntityGUID = ''G'', Config_ApplicationLogging_Enabled = True,
                             Config_ApplicationLogging_LocalDecorating_Enabled = True\<rparr>\<rparr>\<rparr>"

definition exampleTransaction :: Transaction where
  "exampleTransaction =
     \<lparr>txn_Application = Some exampleApplication,
      txn_TraceMetadata_TraceID = ''T'', txn_TraceMetadata_SpanID = ''S''\<rparr>"

text \<open>
  Collaborators for the transaction examples: a collection that keeps at most five
  records, a writer that logs what it receives and always reports the same two headers,
  a name builder that prefixes the name, and for \<open>strconv\<close> tables that hold the
  values the examples meet.
\<close>

definition exampleAdd :: "txnError \<Rightarrow> txnError list \<Rightarrow> txnError list" where
  "exampleAdd e xs = (if length xs < 5 then xs @ [e] else xs)"

definition exampleExternals :: "string list externals" where
  "exampleExternals =
     \<lparr>strconv_Atoi = (\<lambda>s. if s = ''12'' then Some 12 else None),
      strconv_Itoa = (\<lambda>n. if n = 599 then ''599'' else ''0''),
      safeURLFromString = (\<lambda>s. s),
      queueDuration = (\<lambda>h now. 0),
      newAttributes = (\<lambda>c.
        \<lparr>agent = \<lparr>agent_HostDisplayName = [], RequestMethod = [], RequestAcceptHeader = [],
                   RequestContentType = [], RequestHeadersHost = [], RequestHeadersUserAgent = [],
                   RequestHeadersReferer = [], RequestContentLength = 0,
                   ResponseHeadersContentType = [], ResponseHeadersContentLength = 0,
                   ResponseCode = []\<rparr>,
         user = []\<rparr>),
      CreateFullTxnName = (\<lambda>nm reply web.
        if nm = [] then [] else (if web then ''WebTransaction/Go/'' else ''OtherTransaction/Go/'') @ nm),
      calculateApdexThreshold = (\<lambda>reply nm. 500000000),
      txnErrorFromResponseCode = (\<lambda>code.
        \<lparr>stack = [], when' = 0, msg = ''response code error'', klass = ''http''\<rparr>),
      txnErrorFromPanic = (\<lambda>v. \<lparr>stack = [], when' = 0, msg = ''panic'', klass = ''panic''\<rparr>),
      txnErrorFromError = (\<lambda>s. \<lparr>stack = [], when' = 0, msg = s, klass = ''error''\<rparr>),
      txnErrors_Add = exampleAdd,
      addUserAttribute = (\<lambda>a k v.
        case v of None \<Rightarrow> (a, Some (ErrExternal ''nil value''))
                | Some x \<Rightarrow> (a\<lparr>user := user a @ [(k, x)]\<rparr>, None)),
      Writer_Header = (\<lambda>w k. if k = ''Content-Type'' then ''text/plain''
                              else if k = ''Content-Length'' then ''12'' else []),
      Writer_Write = (\<lambda>w b. (w @ [b], int (length b), None)),
      Writer_WriteHeader = (\<lambda>w code. w @ [''status''])\<rparr>"

definition exampleInput :: txnInput where
  "exampleInput =
     \<lparr>in_Request = Some \<lparr>Method = ''GET'', Header = (\<lambda>k. [])\<rparr>,
      in_Config = \<lparr>ErrorCollector_Enabled = True, ErrorCollector_CaptureEvents = True,
                   ErrorCollector_IgnoreStatusCodes = [418], TransactionEvents_Enabled = True,
                   HighSecurity = True, HostDisplayName = ''host''\<rparr>,
      in_Reply = \<lparr>RunID = ''run-1'', CollectErrors = True, CollectAnalyticsEvents = True,
                  CollectErrorEvents = True\<rparr>,
      in_attrConfig = undefined\<rparr>"

definition exampleWorld :: "string list world" where
  "exampleWorld = newWorld exampleExternals 1000 exampleInput ''hello'' []"

definition endedWorld :: "string list world" where
  "endedWorld = fst (End exampleExternals 1500 2000 [] None exampleWorld)"

definition localOffWorld :: "string list world" where
  "localOffWorld =
     newWorld exampleExternals 1000
       (exampleInput\<lparr>in_Config := (in_Config exampleInput)\<lparr>ErrorCollector_Enabled := False\<rparr>\<rparr>)
       ''hello'' []"

definition remoteOffWorld :: "string list world" where
  "remoteOffWorld =
     newWorld exampleExternals 1000
       (exampleInput\<lparr>in_Reply := (in_Reply exampleInput)\<lparr>CollectErrors := False\<rparr>\<rparr>)
       ''hello'' []"

definition backgroundWorld :: "string list world" where
  "backgroundWorld =
     newWorld exampleExternals 1000 (exampleInput\<lparr>in_Request := None\<rparr>) ''job'' []"

section \<open>Properties of the log subsystem\<close>

subsection \<open>\<open>toLogEvent\<close>\<close>

lemma toLogEvent_nil: "toLogEvent lc trim nowMs p None = (None, Inl errNilLogData)"
  by (simp add: toLogEvent_def)

lemma toLogEvent_too_large:
  "length (Message d) > MaxLogLength \<Longrightarrow>
   toLogEvent lc trim nowMs p (Some d) =
     (Some (if Severity d = [] then d\<lparr>Severity := LogSeverityUnknown lc\<rparr> else d),
      Inl errLogMessageTooLarge)"
  by (simp add: toLogEvent_def Let_def)

lemma toLogEvent_ok:
  "length (Message d) \<le> MaxLogLength \<Longrightarrow>
   toLogEvent lc trim nowMs p (Some d) =
     (Some \<lparr>Timestamp = (if Timestamp d = 0 then nowMs else Timestamp d),
            Severity = trim (if Severity d = [] then LogSeverityUnknown lc else Severity d),
            Message = trim (Message d)\<rparr>,
      Inr \<lparr>priority = p,
           timestamp = (if Timestamp d = 0 then nowMs else Timestamp d),
           severity = trim (if Severity d = [] then LogSeverityUnknown lc else Severity d),
           message = trim (Message d), spanID = [], traceID = []\<rparr>)"
  by (cases d) (simp add: toLogEvent_def Let_def)

text \<open>
  Claim C7.  \<open>toLogEvent\<close> fails with \<open>errNilLogData\<close> exactly when the data pointer is
  \<open>nil\<close>, and with \<open>errLogMessageTooLarge\<close> exactly when the message is longer than
  32768 bytes.  Otherwise it succeeds: the event's severity is the trimmed input
  severity, or the trimmed \<open>LogSeverityUnknown\<close> when the input severity was the empty
  string (which is \<open>LogSeverityUnknown\<close> itself when trimming leaves that constant
  alone); its timestamp is the input's, or the clock reading when the input's was zero;
  its message is the trimmed input message.
\<close>

theorem toLogEvent_build:
  fixes lc :: logcontext and trim :: "string \<Rightarrow> string" and nowMs :: int64 and p :: 'p
    and data :: "LogData option"
  defines "res \<equiv> snd (toLogEvent lc trim nowMs p data)"
  shows "(res = Inl errNilLogData \<longleftrightarrow> data = None) \<and>
         (res = Inl errLogMessageTooLarge \<longleftrightarrow>
            (\<exists>d. data = Some d \<and> length (Message d) > 32768)) \<and>
         (\<forall>d. data = Some d \<and> length (Message d) \<le> 32768 \<longrightarrow>
            (\<exists>e. res = Inr e \<and>
                 severity e = trim (if Severity d = [] then LogSeverityUnknown lc else Severity d) \<and>
                 (Severity d = [] \<and> trim (LogSeverityUnknown lc) = LogSeverityUnknown lc
                    \<longrightarrow> severity e = LogSeverityUnknown lc) \<and>
                 timestamp e = (if Timestamp d = 0 then nowMs else Timestamp d) \<and>
                 message e = trim (Message d) \<and>
                 priority e = p \<and> spanID e = [] \<and> traceID e = []))"
proof (cases data)
  case None
  then show ?thesis by (simp add: res_def toLogEvent_nil)
next
  case (Some d)
  show ?thesis
  proof (cases "length (Message d) > MaxLogLength")
    case True
    with Some show ?thesis
      by (simp add: res_def toLogEvent_too_large) (simp add: MaxLogLength_def)
  next
    case False
    then have le: "length (Message d) \<le> MaxLogLength" by simp
    from le have "length (Message d) \<le> 32768" by (simp add: MaxLogLength_def)
    with Some show ?thesis
      by (simp add: res_def toLogEvent_ok [OF le])
  qed
qed

theorem toLogEvent_build_witness:
  "snd (toLogEvent exampleLogcontext trimAscii 1700000000000 (7::nat)
          (Some \<lparr>Timestamp = 0, Severity = [], Message = ''  disk full  ''\<rparr>))
     = Inr \<lparr>priority = 7, timestamp = 1700000000000, severity = ''UNKNOWN'',
            message = ''disk full'', spanID = [], traceID = []\<rparr>"
proof -
  let ?d = "\<lparr>Timestamp = 0, Severity = [], Message = ''  disk full  ''\<rparr>"
  have small: "Some ?d = Some ?d \<and> length (Message ?d) \<le> 32768" by simp
  have blank: "Severity ?d = [] \<and>
      trimAscii (LogSeverityUnknown exampleLogcontext) = LogSeverityUnknown exampleLogcontext"
    by (simp add: exampleLogcontext_def trimAscii_def asciiSpace_def)
  from toLogEvent_build [of exampleLogcontext trimAscii 1700000000000 "7::nat" "Some ?d"] small blank
  obtain e where "snd (toLogEvent exampleLogcontext trimAscii 1700000000000 (7::nat) (Some ?d)) = Inr e"
    and "severity e = LogSeverityUnknown exampleLogcontext"
    and "timestamp e = 1700000000000" and "message e = trimAscii ''  disk full  ''"
    and "priority e = 7" and "spanID e = []" and "traceID e = []"
    by auto
  then show ?thesis
    by (cases e) (simp add: exampleLogcontext_def trimAscii_def asciiSpace_def)
qed

text \<open>
  Claim C10.  \<open>toLogEvent\<close> writes through its receiver: after a successful call the
  caller's \<open>LogData\<close> holds the defaulted severity, the defaulted timestamp and the
  trimmed message and severity.
\<close>

theorem toLogEvent_mutates_input:
  assumes "length (Message d) \<le> 32768"
  shows "\<exists>e. toLogEvent lc trim nowMs p (Some d) =
           (Some \<lparr>Timestamp = (if Timestamp d = 0 then nowMs else Timestamp d),
                  Severity = trim (if Severity d = [] then LogSeverityUnknown lc else Severity d),
                  Message = trim (Message d)\<rparr>,
            Inr e)"
proof -
  from assms have "length (Message d) \<le> MaxLogLength" by (simp add: MaxLogLength_def)
  then show ?thesis by (simp add: toLogEvent_ok)
qed

theorem toLogEvent_mutates_input_witness:
  "fst (toLogEvent exampleLogcontext trimAscii 1700000000000 (7::nat)
          (Some \<lparr>Timestamp = 0, Severity = [], Message = ''  disk full  ''\<rparr>))
     = Some \<lparr>Timestamp = 1700000000000, Severity = ''UNKNOWN'', Message = ''disk full''\<rparr> \<and>
   fst (toLogEvent exampleLogcontext trimAscii 1700000000000 (7::nat)
          (Some \<lparr>Timestamp = 0, Severity = [], Message = ''  disk full  ''\<rparr>))
     \<noteq> Some \<lparr>Timestamp = 0, Severity = [], Message = ''  disk full  ''\<rparr>"
proof -
  let ?d = "\<lparr>Timestamp = 0, Severity = [], Message = ''  disk full  ''\<rparr>"
  have small: "length (Message ?d) \<le> 32768" by simp
  from toLogEvent_mutates_input [OF small, of exampleLogcontext trimAscii 1700000000000 "7::nat"]
  obtain e where "toLogEvent exampleLogcontext trimAscii 1700000000000 (7::nat) (Some ?d) =
      (Some \<lparr>Timestamp = (if Timestamp ?d = 0 then 1700000000000 else Timestamp ?d),
             Severity = trimAscii (if Severity ?d = [] then LogSeverityUnknown exampleLogcontext
                                   else Severity ?d),
             Message = trimAscii (Message ?d)\<rparr>, Inr e)"
    by blast
  then show ?thesis
    by (simp add: exampleLogcontext_def trimAscii_def asciiSpace_def)
qed

subsection \<open>\<open>WriteJSON\<close>\<close>

lemma stringField_buf:
  "buf (stringField jx key val w) =
     buf w @ (if needsComma w then '','' else []) @ encodeString jx key @ '':'' @ encodeString jx val"
  by (simp add: stringField_def addKey_def Let_def AppendString_def WriteByte_def)

lemma stringField_needsComma: "needsComma (stringField jx key val w)"
  by (simp add: stringField_def addKey_def Let_def)

lemma intField_buf:
  "buf (intField jx key val w) =
     buf w @ (if needsComma w then '','' else []) @ encodeString jx key @ '':'' @ encodeInt jx val"
  by (simp add: intField_def addKey_def Let_def AppendString_def AppendInt_def WriteByte_def)

text \<open>
  Claim C8.  The encoding of every log event is the object with the fields severity,
  message, span id (only when not empty), trace id (only when not empty) and timestamp,
  in this order.
\<close>

theorem WriteJSON_field_order:
  "WriteJSON lc jx e b =
     b @ ''{''
       @ encodeString jx (LogSeverityFieldName lc) @ '':'' @ encodeString jx (severity e)
       @ '','' @ encodeString jx (LogMessageFieldName lc) @ '':'' @ encodeString jx (message e)
       @ (if spanID e = [] then []
          else '','' @ encodeString jx (LogSpanIDFieldName lc) @ '':'' @ encodeString jx (spanID e))
       @ (if traceID e = [] then []
          else '','' @ encodeString jx (LogTraceIDFieldName lc) @ '':'' @ encodeString jx (traceID e))
       @ '','' @ encodeString jx (LogTimestampFieldName lc) @ '':'' @ encodeInt jx (timestamp e)
       @ ''}''"
  by (simp add: WriteJSON_def Let_def stringField_buf stringField_needsComma intField_buf
        WriteByte_def)

subsection \<open>\<open>EnrichLog\<close>\<close>

lemma appendLinkingMetadata_eq:
  "appendLinkingMetadata md b =
     b @ (if md_entityGUID md = [] \<or> md_hostname md = [] \<or> md_entityName md = [] then []
          else '' NR-LINKING|'' @
            (if md_traceID md \<noteq> [] \<and> md_spanID md \<noteq> []
             then md_entityGUID md @ ''|'' @ md_hostname md @ ''|'' @ md_traceID md @ ''|''
                    @ md_spanID md @ ''|'' @ md_entityName md @ ''|''
             else md_entityGUID md @ ''|'' @ md_hostname md @ ''|'' @ md_entityName md @ ''|''))"
  by (simp add: appendLinkingMetadata_def Let_def WriteString_def WriteByte_def)

text \<open>
  Claim C9.  When the source resolves to a connected application (directly, with no
  trace context, or through a transaction, with its trace and span ids) and logging and
  local decoration are enabled, \<open>EnrichLog\<close> returns \<open>nil\<close> and appends: nothing when
  the entity GUID, the host or the entity name is empty; otherwise \<open>" NR-LINKING|"\<close>
  followed by GUID, host, trace id, span id and name, each ended by a pipe, when trace
  id and span id are both non-empty, and by GUID, host and name otherwise.
\<close>

theorem EnrichLog_linking:
  assumes config: "opts \<lparr>cfg_app = None, cfg_txn = None\<rparr> = config"
    and source:
      "(cfg_app config = Some a \<and> tid = [] \<and> sid = []) \<or>
       (cfg_app config = None \<and> cfg_txn config = Some t \<and> txn_Application t = Some a \<and>
          tid = txn_TraceMetadata_TraceID t \<and> sid = txn_TraceMetadata_SpanID t)"
    and connected: "app_app a = Some ap" "app_getState ap = Inr reply"
    and enabled: "Config_ApplicationLogging_Enabled reply"
      "Config_ApplicationLogging_LocalDecorating_Enabled reply"
    and guid: "guid = Reply_EntityGUID reply" and host: "host = config_hostname ap"
    and ename: "ename = config_AppName ap"
  shows "EnrichLog (Some b) opts =
           (Some (b @ (if guid = [] \<or> host = [] \<or> ename = [] then []
                       else '' NR-LINKING|'' @
                         (if tid \<noteq> [] \<and> sid \<noteq> []
                          then guid @ ''|'' @ host @ ''|'' @ tid @ ''|'' @ sid @ ''|'' @ ename @ ''|''
                          else guid @ ''|'' @ host @ ''|'' @ ename @ ''|''))),
            Returns None)"
  using source
proof
  assume "cfg_app config = Some a \<and> tid = [] \<and> sid = []"
  with config connected enabled guid host ename show ?thesis
    by (simp add: EnrichLog_def Let_def appendLinkingMetadata_eq)
next
  assume "cfg_app config = None \<and> cfg_txn config = Some t \<and> txn_Application t = Some a \<and>
          tid = txn_TraceMetadata_TraceID t \<and> sid = txn_TraceMetadata_SpanID t"
  with config connected enabled guid host ename show ?thesis
    by (simp add: EnrichLog_def Let_def appendLinkingMetadata_eq)
qed

theorem EnrichLog_linking_witness:
  "EnrichLog (Some ''line'') (FromApp (Some exampleApplication))
     = (Some ''line NR-LINKING|G|H|N|'', Returns None) \<and>
   EnrichLog (Some ''line'') (FromTxn (Some exampleTransaction))
     = (Some ''line NR-LINKING|G|H|T|S|N|'', Returns None)"
proof -
  let ?ap = "\<lparr>config_AppName = ''N'', config_hostname = ''H'',
         app_getState = Inr \<lparr>Reply_EntityGUID = ''G'', Config_ApplicationLogging_Enabled = True,
                             Config_ApplicationLogging_LocalDecorating_Enabled = True\<rparr>\<rparr>"
  let ?reply = "\<lparr>Reply_EntityGUID = ''G'', Config_ApplicationLogging_Enabled = True,
                             Config_ApplicationLogging_LocalDecorating_Enabled = True\<rparr>"
  have 1: "EnrichLog (Some ''line'') (FromApp (Some exampleApplication))
     = (Some ''line NR-LINKING|G|H|N|'', Returns None)"
    using EnrichLog_linking [of "FromApp (Some exampleApplication)"
        "\<lparr>cfg_app = Some exampleApplication, cfg_txn = None\<rparr>" exampleApplication "[]" "[]"
        exampleTransaction ?ap ?reply "''G''" "''H''" "''N''" "''line''"]
    by (simp add: FromApp_def exampleApplication_def)
  have 2: "EnrichLog (Some ''line'') (FromTxn (Some exampleTransaction))
     = (Some ''line NR-LINKING|G|H|T|S|N|'', Returns None)"
    using EnrichLog_linking [of "FromTxn (Some exampleTransaction)"
        "\<lparr>cfg_app = None, cfg_txn = Some exampleTransaction\<rparr>" exampleApplication "''T''" "''S''"
        exampleTransaction ?ap ?reply "''G''" "''H''" "''N''" "''line''"]
    by (simp add: FromTxn_def exampleApplication_def exampleTransaction_def)
  from 1 2 show ?thesis by simp
qed

section \<open>Properties of transactions\<close>

subsection \<open>What each operation changes\<close>

lemma noticeErrorInternal_eq:
  "noticeErrorInternal ext now e t =
     (if \<not> ErrorCollector_Enabled (Config t)
        then (t\<lparr>errorsSeen := errorsSeen t + 1\<rparr>, Some ErrorsLocallyDisabled)
      else if \<not> CollectErrors (Reply t)
        then (t\<lparr>errorsSeen := errorsSeen t + 1\<rparr>, Some ErrorsRemotelyDisabled)
      else (t\<lparr>errorsSeen := errorsSeen t + 1,
              errors := Some (txnErrors_Add ext
                 (e\<lparr>msg := (if HighSecurity (Config t) then HighSecurityErrorMsg else msg e),
                    when' := now\<rparr>)
                 (storedErrors t))\<rparr>, None))"
  by (cases "errors t") (simp_all add: noticeErrorInternal_def Let_def newTxnErrors_def storedErrors_def)

lemma noticeErrorInternal_frame:
  "Config (fst (noticeErrorInternal ext now e t)) = Config t"
  "Reply (fst (noticeErrorInternal ext now e t)) = Reply t"
  "finished (fst (noticeErrorInternal ext now e t)) = finished t"
  "isWeb (fst (noticeErrorInternal ext now e t)) = isWeb t"
  "ignore (fst (noticeErrorInternal ext now e t)) = ignore t"
  "start (fst (noticeErrorInternal ext now e t)) = start t"
  "name (fst (noticeErrorInternal ext now e t)) = name t"
  "finalName (fst (noticeErrorInternal ext now e t)) = finalName t"
  "wroteHeader (fst (noticeErrorInternal ext now e t)) = wroteHeader t"
  "attrs (fst (noticeErrorInternal ext now e t)) = attrs t"
  "errorsSeen (fst (noticeErrorInternal ext now e t)) = errorsSeen t + 1"
  by (simp_all add: noticeErrorInternal_eq)

lemma headersJustWritten_done:
  "finished t \<or> wroteHeader t \<Longrightarrow> headersJustWritten ext now stk w t code = t"
  by (auto simp: headersJustWritten_def)

lemma headersJustWritten_frame:
  "Config (headersJustWritten ext now stk w t code) = Config t"
  "Reply (headersJustWritten ext now stk w t code) = Reply t"
  "finished (headersJustWritten ext now stk w t code) = finished t"
  by (simp_all add: headersJustWritten_def Let_def noticeErrorInternal_frame)

lemma run_Cons:
  "fst (run ext (c # cs) wd) = fst (run ext cs (fst (perform ext c wd)))"
  "snd (run ext (c # cs) wd) = snd (perform ext c wd) # snd (run ext cs (fst (perform ext c wd)))"
  by (simp_all split: prod.splits)

lemma NoticeError_txn:
  "the_txn (fst (NoticeError ext now stk err wd)) =
     (if finished (the_txn wd) then the_txn wd
      else case err of
             None \<Rightarrow> the_txn wd
           | Some x \<Rightarrow> fst (noticeErrorInternal ext now ((txnErrorFromError ext x)\<lparr>stack := stk\<rparr>)
                             (the_txn wd)))"
  "consumed (fst (NoticeError ext now stk err wd)) = consumed wd"
  "writer (fst (NoticeError ext now stk err wd)) = writer wd"
  by (simp_all add: NoticeError_def Let_def split: option.splits prod.splits)

lemma AddAttribute_txn:
  "the_txn (fst (AddAttribute ext nm v wd)) =
     (if finished (the_txn wd) then the_txn wd
      else (the_txn wd)\<lparr>attrs := fst (addUserAttribute ext (attrs (the_txn wd)) nm v)\<rparr>)"
  "consumed (fst (AddAttribute ext nm v wd)) = consumed wd"
  "writer (fst (AddAttribute ext nm v wd)) = writer wd"
  by (simp_all add: AddAttribute_def Let_def split: prod.splits)

lemma Write_txn:
  "the_txn (fst (Write ext now stk b wd)) =
     headersJustWritten ext now stk (fst (Writer_Write ext (writer wd) b)) (the_txn wd) 200"
  "consumed (fst (Write ext now stk b wd)) = consumed wd"
  by (simp_all add: Write_def split: prod.splits)

lemma WriteHeader_txn:
  "the_txn (fst (WriteHeader ext now stk code wd)) =
     headersJustWritten ext now stk (Writer_WriteHeader ext (writer wd) code) (the_txn wd) code"
  "consumed (fst (WriteHeader ext now stk code wd)) = consumed wd"
  by (simp_all add: WriteHeader_def Let_def)

lemma SetName_txn:
  "the_txn (fst (SetName nm wd)) =
     (if finished (the_txn wd) then the_txn wd else (the_txn wd)\<lparr>name := nm\<rparr>)"
  "consumed (fst (SetName nm wd)) = consumed wd"
  "writer (fst (SetName nm wd)) = writer wd"
  by (simp_all add: SetName_def Let_def)

lemma End_frame:
  "Config (the_txn (fst (End ext nowErr nowStop stk r wd))) = Config (the_txn wd)"
  "Reply (the_txn (fst (End ext nowErr nowStop stk r wd))) = Reply (the_txn wd)"
  "isWeb (the_txn (fst (End ext nowErr nowStop stk r wd))) = isWeb (the_txn wd)"
  by (simp_all add: End_def Let_def freezeName_def getsApdex_def noticeErrorInternal_frame
        split: option.splits)

lemma End_errors:
  "errors (the_txn (fst (End ext nowErr nowStop stk r wd))) =
     (if finished (the_txn wd) then errors (the_txn wd)
      else case r of
             None \<Rightarrow> errors (the_txn wd)
           | Some v \<Rightarrow> errors (fst (noticeErrorInternal ext nowErr
                                 ((txnErrorFromPanic ext v)\<lparr>stack := stk\<rparr>)
                                 ((the_txn wd)\<lparr>finished := True\<rparr>))))"
  by (simp add: End_def Let_def freezeName_def getsApdex_def split: option.splits)

lemma headersJustWritten_errors:
  "errors (headersJustWritten ext now stk w t code) =
     (if finished t \<or> wroteHeader t \<or> \<not> responseCodeIsError (Config t) code then errors t
      else errors (fst (noticeErrorInternal ext now ((txnErrorFromResponseCode ext code)\<lparr>stack := stk\<rparr>)
                          (t\<lparr>wroteHeader := True\<rparr>))))"
  by (simp add: headersJustWritten_def Let_def noticeErrorInternal_eq storedErrors_def)

lemma perform_Config:
  "Config (the_txn (fst (perform ext c wd))) = Config (the_txn wd) \<and>
   Reply (the_txn (fst (perform ext c wd))) = Reply (the_txn wd)"
  by (cases c)
     (simp_all add: SetName_txn AddAttribute_txn NoticeError_txn Write_txn WriteHeader_txn
        End_frame headersJustWritten_frame noticeErrorInternal_frame split: option.splits)

lemma newTxn_initial:
  "Config (newTxn ext now input nm) = in_Config input"
  "Reply (newTxn ext now input nm) = in_Reply input"
  "errors (newTxn ext now input nm) = None"
  "errorsSeen (newTxn ext now input nm) = 0"
  "\<not> finished (newTxn ext now input nm)"
  "\<not> wroteHeader (newTxn ext now input nm)"
  "isWeb (newTxn ext now input nm) = (in_Request input \<noteq> None)"
  by (simp_all add: newTxn_def Let_def split: option.splits)

subsection \<open>Finished transactions\<close>

lemma SetName_finished:
  "finished (the_txn wd) \<Longrightarrow> SetName nm wd = (wd, Returns (Some ErrAlreadyEnded))"
  by (simp add: SetName_def)

lemma AddAttribute_finished:
  "finished (the_txn wd) \<Longrightarrow> AddAttribute ext nm v wd = (wd, Returns (Some ErrAlreadyEnded))"
  by (simp add: AddAttribute_def)

lemma NoticeError_finished:
  "finished (the_txn wd) \<Longrightarrow> NoticeError ext now stk err wd = (wd, Returns (Some ErrAlreadyEnded))"
  by (simp add: NoticeError_def)

lemma End_finished:
  "finished (the_txn wd) \<Longrightarrow> End ext nowErr nowStop stk r wd = (wd, Returns (Some ErrAlreadyEnded))"
  by (simp add: End_def)

lemma Write_finished:
  "finished (the_txn wd) \<Longrightarrow>
   Write ext now stk b wd =
     (wd\<lparr>writer := fst (Writer_Write ext (writer wd) b)\<rparr>,
      ReturnsWrite (fst (snd (Writer_Write ext (writer wd) b)))
                   (snd (snd (Writer_Write ext (writer wd) b))))"
  by (cases "Writer_Write ext (writer wd) b") (simp add: Write_def headersJustWritten_done)

lemma WriteHeader_finished:
  "finished (the_txn wd) \<Longrightarrow>
   WriteHeader ext now stk code wd =
     (wd\<lparr>writer := Writer_WriteHeader ext (writer wd) code\<rparr>, ReturnsNothing)"
  by (simp add: WriteHeader_def Let_def headersJustWritten_done)

lemma perform_finished:
  "finished (the_txn wd) \<Longrightarrow>
   the_txn (fst (perform ext c wd)) = the_txn wd \<and> consumed (fst (perform ext c wd)) = consumed wd"
  by (cases c)
     (simp_all add: SetName_finished AddAttribute_finished NoticeError_finished End_finished
        Write_finished WriteHeader_finished)

lemma run_finished:
  "finished (the_txn wd) \<Longrightarrow>
   the_txn (fst (run ext cs wd)) = the_txn wd \<and> consumed (fst (run ext cs wd)) = consumed wd"
proof (induction cs arbitrary: wd)
  case Nil
  then show ?case by simp
next
  case (Cons c cs)
  let ?wd1 = "fst (perform ext c wd)"
  from perform_finished [OF Cons.prems, of ext c]
  have same: "the_txn ?wd1 = the_txn wd" "consumed ?wd1 = consumed wd" by simp_all
  with Cons.prems have "finished (the_txn ?wd1)" by simp
  from Cons.IH [OF this] same show ?case by (simp only: run_Cons)
qed

lemma perform_not_End:
  "\<not> isEnd c \<Longrightarrow>
   finished (the_txn (fst (perform ext c wd))) = finished (the_txn wd) \<and>
   consumed (fst (perform ext c wd)) = consumed wd"
  by (cases c)
     (simp_all add: SetName_txn AddAttribute_txn NoticeError_txn Write_txn WriteHeader_txn
        headersJustWritten_frame noticeErrorInternal_frame split: option.splits)

lemma End_unfinished:
  assumes "\<not> finished (the_txn wd)"
  shows "finished (the_txn (fst (End ext nowErr nowStop stk r wd)))"
    and "consumed (fst (End ext nowErr nowStop stk r wd)) =
           consumed wd @
             (if ignore (the_txn (fst (End ext nowErr nowStop stk r wd))) then []
              else [(RunID (Reply (the_txn (fst (End ext nowErr nowStop stk r wd)))),
                     the_txn (fst (End ext nowErr nowStop stk r wd)))])"
    and "snd (End ext nowErr nowStop stk r wd) =
           (case r of None \<Rightarrow> Returns None | Some v \<Rightarrow> Panics (Repanic v))"
    and "writer (fst (End ext nowErr nowStop stk r wd)) = writer wd"
  using assms
  by (simp_all add: End_def Let_def freezeName_def noticeErrorInternal_frame getsApdex_def
        split: option.splits)

subsection \<open>The examples\<close>

lemmas example_defs = exampleWorld_def newWorld_def newTxn_def exampleInput_def
  exampleExternals_def exampleAdd_def

lemma exampleWorld_unfinished: "\<not> finished (the_txn exampleWorld)"
  by (simp add: example_defs Let_def)

lemma endedWorld_finished: "finished (the_txn endedWorld)"
  unfolding endedWorld_def by (rule End_unfinished(1) [OF exampleWorld_unfinished])

lemmas example_world_defs = localOffWorld_def remoteOffWorld_def backgroundWorld_def example_defs

subsection \<open>\<open>End\<close> finalizes and merges once\<close>

lemma run_all_End_finished:
  "finished (the_txn wd) \<Longrightarrow> \<forall>c\<in>set cs. isEnd c \<Longrightarrow>
   snd (run ext cs wd) = replicate (length cs) (Returns (Some ErrAlreadyEnded))"
proof (induction cs arbitrary: wd)
  case Nil
  then show ?case by simp
next
  case (Cons c cs)
  from Cons.prems(2) obtain a b s r where c: "c = CallEnd a b s r" by (cases c) simp_all
  from Cons.prems(1) have p: "perform ext c wd = (wd, Returns (Some ErrAlreadyEnded))"
    by (simp add: c End_finished)
  from Cons.IH [OF Cons.prems(1)] Cons.prems(2) p show ?case
    by (simp only: run_Cons) simp
qed

lemma run_with_End:
  "\<not> finished (the_txn wd) \<Longrightarrow> \<exists>c\<in>set cs. isEnd c \<Longrightarrow>
   finished (the_txn (fst (run ext cs wd))) \<and>
   consumed (fst (run ext cs wd)) =
     consumed wd @
       (if ignore (the_txn (fst (run ext cs wd))) then []
        else [(RunID (Reply (the_txn (fst (run ext cs wd)))), the_txn (fst (run ext cs wd)))])"
proof (induction cs arbitrary: wd)
  case Nil
  then show ?case by simp
next
  case (Cons c cs)
  let ?wd1 = "fst (perform ext c wd)"
  show ?case
  proof (cases "isEnd c")
    case True
    then obtain a b s r where c: "c = CallEnd a b s r" by (cases c) simp_all
    have wd1: "?wd1 = fst (End ext a b s r wd)" by (simp add: c)
    from End_unfinished(1,2) [OF Cons.prems(1), of ext a b s r]
    have fin: "finished (the_txn ?wd1)"
      and cons: "consumed ?wd1 = consumed wd @
          (if ignore (the_txn ?wd1) then [] else [(RunID (Reply (the_txn ?wd1)), the_txn ?wd1)])"
      by (simp_all only: wd1)
    from run_finished [OF fin, of ext cs]
    have "the_txn (fst (run ext cs ?wd1)) = the_txn ?wd1"
      and "consumed (fst (run ext cs ?wd1)) = consumed ?wd1" by simp_all
    with fin cons show ?thesis by (simp only: run_Cons)
  next
    case False
    from perform_not_End [OF False, of ext wd] Cons.prems(1)
    have unf: "\<not> finished (the_txn ?wd1)" and cons: "consumed ?wd1 = consumed wd" by simp_all
    from False Cons.prems(2) have "\<exists>c\<in>set cs. isEnd c" by simp
    from Cons.IH [OF unf this] cons show ?thesis by (simp only: run_Cons)
  qed
qed

text \<open>
  Claim C1.  On a transaction that has not ended, \<open>End\<close> sets \<open>finished\<close> and hands
  the transaction to the consumer once, unless the transaction is flagged \<open>ignore\<close>.
  Calling \<open>End\<close> again returns \<open>ErrAlreadyEnded\<close> and changes nothing; no later call
  changes the transaction or what the consumer received; every later \<open>End\<close> returns
  \<open>ErrAlreadyEnded\<close>.  For every sequence of calls with an \<open>End\<close> among them, the
  consumer has received the transaction exactly once at the end of the sequence, or not
  at all when it is flagged \<open>ignore\<close>.
\<close>

theorem End_exactly_once:
  fixes ext :: "'w externals" and wd :: "'w world"
    and nowErr nowStop :: time and stk :: string and r :: "any option"
  defines "wd1 \<equiv> fst (End ext nowErr nowStop stk r wd)"
  assumes unfinished: "\<not> finished (the_txn wd)"
  shows "finished (the_txn wd1) \<and>
         consumed wd1 =
           consumed wd @
             (if ignore (the_txn wd1) then [] else [(RunID (Reply (the_txn wd1)), the_txn wd1)]) \<and>
         End ext nowErr' nowStop' stk' r' wd1 = (wd1, Returns (Some ErrAlreadyEnded)) \<and>
         (\<forall>cs. the_txn (fst (run ext cs wd1)) = the_txn wd1 \<and>
               consumed (fst (run ext cs wd1)) = consumed wd1) \<and>
         (\<forall>cs. (\<forall>c\<in>set cs. isEnd c) \<longrightarrow>
               snd (run ext cs wd1) = replicate (length cs) (Returns (Some ErrAlreadyEnded))) \<and>
         (\<forall>cs. (\<exists>c\<in>set cs. isEnd c) \<longrightarrow>
               consumed (fst (run ext cs wd)) =
                 consumed wd @
                   (if ignore (the_txn (fst (run ext cs wd))) then []
                    else [(RunID (Reply (the_txn (fst (run ext cs wd)))),
                           the_txn (fst (run ext cs wd)))]))"
proof -
  have fin: "finished (the_txn wd1)"
    unfolding wd1_def by (rule End_unfinished(1) [OF unfinished])
  have cons: "consumed wd1 =
           consumed wd @
             (if ignore (the_txn wd1) then [] else [(RunID (Reply (the_txn wd1)), the_txn wd1)])"
    unfolding wd1_def by (rule End_unfinished(2) [OF unfinished])
  have again: "End ext nowErr' nowStop' stk' r' wd1 = (wd1, Returns (Some ErrAlreadyEnded))"
    by (rule End_finished [OF fin])
  have later: "\<forall>cs. the_txn (fst (run ext cs wd1)) = the_txn wd1 \<and>
               consumed (fst (run ext cs wd1)) = consumed wd1"
    using run_finished [OF fin] by blast
  have ends: "\<forall>cs. (\<forall>c\<in>set cs. isEnd c) \<longrightarrow>
               snd (run ext cs wd1) = replicate (length cs) (Returns (Some ErrAlreadyEnded))"
    using run_all_End_finished [OF fin] by blast
  have any: "\<forall>cs. (\<exists>c\<in>set cs. isEnd c) \<longrightarrow>
               consumed (fst (run ext cs wd)) =
                 consumed wd @
                   (if ignore (the_txn (fst (run ext cs wd))) then []
                    else [(RunID (Reply (the_txn (fst (run ext cs wd)))),
                           the_txn (fst (run ext cs wd)))])"
    using run_with_End [OF unfinished] by blast
  from fin cons again later ends any show ?thesis by blast
qed

theorem End_exactly_once_witness:
  "length (consumed (fst (run exampleExternals
      [CallEnd 1500 2000 [] None, CallEnd 2500 3000 [] None] exampleWorld))) = 1 \<and>
   snd (run exampleExternals [CallEnd 2500 3000 [] None] endedWorld) =
     [Returns (Some ErrAlreadyEnded)] \<and>
   End exampleExternals 2500 3000 [] None endedWorld = (endedWorld, Returns (Some ErrAlreadyEnded))"
proof -
  note inst = End_exactly_once [OF exampleWorld_unfinished, of exampleExternals 1500 2000 "[]" None
      2500 3000 "[]" None, folded endedWorld_def]
  let ?cs = "[CallEnd 1500 2000 [] None, CallEnd 2500 3000 [] None]"
  have has: "\<exists>c\<in>set ?cs. isEnd c" by simp
  have all: "\<forall>c\<in>set [CallEnd 2500 3000 [] None]. isEnd c" by simp
  from inst has have c: "consumed (fst (run exampleExternals ?cs exampleWorld)) =
      consumed exampleWorld @
        (if ignore (the_txn (fst (run exampleExternals ?cs exampleWorld))) then []
         else [(RunID (Reply (the_txn (fst (run exampleExternals ?cs exampleWorld)))),
                the_txn (fst (run exampleExternals ?cs exampleWorld)))])"
    by blast
  have ign: "\<not> ignore (the_txn (fst (run exampleExternals ?cs exampleWorld)))"
    by (simp add: End_def Let_def freezeName_def getsApdex_def example_defs)
  have emp: "consumed exampleWorld = []" by (simp add: example_defs)
  from c ign emp have 1: "length (consumed (fst (run exampleExternals ?cs exampleWorld))) = 1"
    by simp
  from inst all have 2: "snd (run exampleExternals [CallEnd 2500 3000 [] None] endedWorld) =
     [Returns (Some ErrAlreadyEnded)]"
    by (metis length_Cons list.size(3) replicate_0 replicate_Suc)
  from inst have 3: "End exampleExternals 2500 3000 [] None endedWorld =
      (endedWorld, Returns (Some ErrAlreadyEnded))" by blast
  from 1 2 3 show ?thesis by blast
qed

subsection \<open>Calls after \<open>End\<close>\<close>

text \<open>
  Claim C2, as stated, fails for the response writer's methods: after \<open>End\<close>,
  \<open>Write\<close> returns the byte count and error of the underlying writer, and
  \<open>WriteHeader\<close> returns nothing; neither returns \<open>ErrAlreadyEnded\<close>.
\<close>

theorem finished_Write_counterexample:
  "finished (the_txn endedWorld) \<and>
   snd (Write exampleExternals 3000 [] ''late'' endedWorld) = ReturnsWrite 4 None \<and>
   snd (Write exampleExternals 3000 [] ''late'' endedWorld) \<noteq> Returns (Some ErrAlreadyEnded) \<and>
   snd (WriteHeader exampleExternals 3000 [] 404 endedWorld) = ReturnsNothing \<and>
   snd (WriteHeader exampleExternals 3000 [] 404 endedWorld) \<noteq> Returns (Some ErrAlreadyEnded)"
  by (simp add: endedWorld_finished Write_finished WriteHeader_finished)
     (simp add: exampleExternals_def)

text \<open>
  Claim C2, amended.  After \<open>End\<close>, the calls \<open>SetName\<close>, \<open>AddAttribute\<close>,
  \<open>NoticeError\<close> and \<open>End\<close> return \<open>ErrAlreadyEnded\<close> and change nothing.  \<open>Write\<close>
  and \<open>WriteHeader\<close> still pass the call to the underlying writer, return what it
  returns (\<open>WriteHeader\<close>: nothing), and leave the transaction record unchanged.  No
  sequence of calls changes the transaction record.
\<close>

theorem finished_calls:
  assumes "finished (the_txn wd)"
  shows "SetName nm wd = (wd, Returns (Some ErrAlreadyEnded)) \<and>
         AddAttribute ext key v wd = (wd, Returns (Some ErrAlreadyEnded)) \<and>
         NoticeError ext now stk err wd = (wd, Returns (Some ErrAlreadyEnded)) \<and>
         End ext nowErr nowStop stk r wd = (wd, Returns (Some ErrAlreadyEnded)) \<and>
         Write ext now stk b wd =
           (wd\<lparr>writer := fst (Writer_Write ext (writer wd) b)\<rparr>,
            ReturnsWrite (fst (snd (Writer_Write ext (writer wd) b)))
                         (snd (snd (Writer_Write ext (writer wd) b)))) \<and>
         WriteHeader ext now stk code wd =
           (wd\<lparr>writer := Writer_WriteHeader ext (writer wd) code\<rparr>, ReturnsNothing) \<and>
         the_txn (fst (run ext cs wd)) = the_txn wd"
  using assms
  by (simp add: SetName_finished AddAttribute_finished NoticeError_finished End_finished
        Write_finished WriteHeader_finished run_finished)

theorem finished_calls_witness:
  "SetName ''late'' endedWorld = (endedWorld, Returns (Some ErrAlreadyEnded)) \<and>
   NoticeError exampleExternals 3000 [] (Some ''late'') endedWorld =
     (endedWorld, Returns (Some ErrAlreadyEnded)) \<and>
   the_txn (fst (Write exampleExternals 3000 [] ''late'' endedWorld)) = the_txn endedWorld \<and>
   the_txn (fst (WriteHeader exampleExternals 3000 [] 404 endedWorld)) = the_txn endedWorld"
  using finished_calls [OF endedWorld_finished, of "''late''" exampleExternals "[]" None 3000 "[]"
      "Some ''late''" 2500 3000 None "''late''" 404 "[]"]
  by simp

subsection \<open>Error capture and its gates\<close>

lemma noticeErrorInternal_gate_closed:
  "\<not> (ErrorCollector_Enabled (Config t) \<and> CollectErrors (Reply t)) \<Longrightarrow>
   errors (fst (noticeErrorInternal ext now e t)) = errors t"
  by (auto simp: noticeErrorInternal_eq)

lemma perform_gate_closed:
  assumes "\<not> (ErrorCollector_Enabled (Config (the_txn wd)) \<and> CollectErrors (Reply (the_txn wd)))"
  shows "errors (the_txn (fst (perform ext c wd))) = errors (the_txn wd)"
proof (cases c)
  case (CallNoticeError now stk err)
  with assms show ?thesis
    by (simp add: NoticeError_txn noticeErrorInternal_gate_closed split: option.splits)
next
  case (CallWrite now stk b)
  with assms show ?thesis
    by (simp add: Write_txn headersJustWritten_errors noticeErrorInternal_gate_closed)
next
  case (CallWriteHeader now stk code)
  with assms show ?thesis
    by (simp add: WriteHeader_txn headersJustWritten_errors noticeErrorInternal_gate_closed)
next
  case (CallEnd nowErr nowStop stk r)
  with assms show ?thesis
    by (simp add: End_errors noticeErrorInternal_gate_closed split: option.splits)
qed (simp_all add: SetName_txn AddAttribute_txn)

lemma run_gate_closed:
  "\<not> (ErrorCollector_Enabled (Config (the_txn wd)) \<and> CollectErrors (Reply (the_txn wd))) \<Longrightarrow>
   errors (the_txn (fst (run ext cs wd))) = errors (the_txn wd)"
proof (induction cs arbitrary: wd)
  case Nil
  then show ?case by simp
next
  case (Cons c cs)
  let ?wd1 = "fst (perform ext c wd)"
  from Cons.prems perform_Config [of ext c wd]
  have "\<not> (ErrorCollector_Enabled (Config (the_txn ?wd1)) \<and> CollectErrors (Reply (the_txn ?wd1)))"
    by simp
  from Cons.IH [OF this] perform_gate_closed [OF Cons.prems, of ext c]
  show ?case by (simp only: run_Cons)
qed

text \<open>
  Claim C3.  \<open>NoticeError\<close> with an error, on a transaction that has not ended,
  increments \<open>errorsSeen\<close> whatever the gates say.  With local capture disabled it
  returns \<open>ErrorsLocallyDisabled\<close>; with local capture enabled and remote capture not
  permitted it returns \<open>ErrorsRemotelyDisabled\<close>; in both cases the error collection is
  left as it was.  With both gates open it returns \<open>nil\<close> and hands the record (redacted
  under high security, stamped with the clock reading) to the collection's \<open>Add\<close>.
  With a gate closed the collection of a new transaction stays \<open>nil\<close> through every
  sequence of calls.
\<close>

theorem NoticeError_gates:
  fixes ext :: "'w externals" and wd :: "'w world" and now :: time and stk x :: string
  defines "t \<equiv> the_txn wd"
    and "t' \<equiv> the_txn (fst (NoticeError ext now stk (Some x) wd))"
    and "res \<equiv> snd (NoticeError ext now stk (Some x) wd)"
  assumes unfinished: "\<not> finished (the_txn wd)"
  shows "errorsSeen t' = errorsSeen t + 1 \<and>
         (\<not> ErrorCollector_Enabled (Config t) \<longrightarrow>
            res = Returns (Some ErrorsLocallyDisabled) \<and> errors t' = errors t) \<and>
         (ErrorCollector_Enabled (Config t) \<and> \<not> CollectErrors (Reply t) \<longrightarrow>
            res = Returns (Some ErrorsRemotelyDisabled) \<and> errors t' = errors t) \<and>
         (ErrorCollector_Enabled (Config t) \<and> CollectErrors (Reply t) \<longrightarrow>
            res = Returns None \<and>
            errors t' = Some (txnErrors_Add ext
              ((txnErrorFromError ext x)
                 \<lparr>stack := stk,
                  msg := (if HighSecurity (Config t) then HighSecurityErrorMsg
                          else msg (txnErrorFromError ext x)),
                  when' := now\<rparr>)
              (storedErrors t))) \<and>
         (\<forall>input nm w cs now0.
            \<not> (ErrorCollector_Enabled (in_Config input) \<and> CollectErrors (in_Reply input)) \<longrightarrow>
            errors (the_txn (fst (run ext cs (newWorld ext now0 input nm w)))) = None)"
proof -
  have reach: "errors (the_txn (fst (run ext cs (newWorld ext now0 input nm w)))) = None"
    if "\<not> (ErrorCollector_Enabled (in_Config input) \<and> CollectErrors (in_Reply input))"
    for input nm w cs now0
  proof -
    from that
    have "\<not> (ErrorCollector_Enabled (Config (the_txn (newWorld ext now0 input nm w))) \<and>
             CollectErrors (Reply (the_txn (newWorld ext now0 input nm w))))"
      by (simp add: newWorld_def newTxn_initial)
    from run_gate_closed [OF this, of ext cs] show ?thesis
      by (simp add: newWorld_def newTxn_initial)
  qed
  from unfinished have "errorsSeen t' = errorsSeen t + 1"
    by (simp add: t'_def t_def NoticeError_txn noticeErrorInternal_frame)
  moreover from unfinished
  have "\<not> ErrorCollector_Enabled (Config t) \<longrightarrow>
            res = Returns (Some ErrorsLocallyDisabled) \<and> errors t' = errors t"
    by (simp add: t'_def t_def res_def NoticeError_def Let_def noticeErrorInternal_eq)
  moreover from unfinished
  have "ErrorCollector_Enabled (Config t) \<and> \<not> CollectErrors (Reply t) \<longrightarrow>
            res = Returns (Some ErrorsRemotelyDisabled) \<and> errors t' = errors t"
    by (simp add: t'_def t_def res_def NoticeError_def Let_def noticeErrorInternal_eq)
  moreover from unfinished
  have "ErrorCollector_Enabled (Config t) \<and> CollectErrors (Reply t) \<longrightarrow>
            res = Returns None \<and>
            errors t' = Some (txnErrors_Add ext
              ((txnErrorFromError ext x)
                 \<lparr>stack := stk,
                  msg := (if HighSecurity (Config t) then HighSecurityErrorMsg
                          else msg (txnErrorFromError ext x)),
                  when' := now\<rparr>)
              (storedErrors t))"
    by (simp add: t'_def t_def res_def NoticeError_def Let_def noticeErrorInternal_eq)
  ultimately show ?thesis using reach by blast
qed

theorem NoticeError_gates_witness:
  "errorsSeen (the_txn (fst (NoticeError exampleExternals 1100 ''stk'' (Some ''boom'') localOffWorld))) = 1 \<and>
   snd (NoticeError exampleExternals 1100 ''stk'' (Some ''boom'') localOffWorld)
     = Returns (Some ErrorsLocallyDisabled) \<and>
   errors (the_txn (fst (NoticeError exampleExternals 1100 ''stk'' (Some ''boom'') localOffWorld))) = None \<and>
   errorsSeen (the_txn (fst (NoticeError exampleExternals 1100 ''stk'' (Some ''boom'') remoteOffWorld))) = 1 \<and>
   snd (NoticeError exampleExternals 1100 ''stk'' (Some ''boom'') remoteOffWorld)
     = Returns (Some ErrorsRemotelyDisabled) \<and>
   errors (the_txn (fst (NoticeError exampleExternals 1100 ''stk'' (Some ''boom'') remoteOffWorld))) = None \<and>
   errorsSeen (the_txn (fst (NoticeError exampleExternals 1100 ''stk'' (Some ''boom'') exampleWorld))) = 1 \<and>
   snd (NoticeError exampleExternals 1100 ''stk'' (Some ''boom'') exampleWorld) = Returns None \<and>
   errors (the_txn (fst (NoticeError exampleExternals 1100 ''stk'' (Some ''boom'') exampleWorld)))
     = Some [\<lparr>stack = ''stk'', when' = 1100, msg = HighSecurityErrorMsg, klass = ''error''\<rparr>]"
proof -
  have u1: "\<not> finished (the_txn localOffWorld)" by (simp add: example_world_defs Let_def)
  have u2: "\<not> finished (the_txn remoteOffWorld)" by (simp add: example_world_defs Let_def)
  have u3: "\<not> finished (the_txn exampleWorld)" by (simp add: example_world_defs Let_def)
  have g1: "\<not> ErrorCollector_Enabled (Config (the_txn localOffWorld))"
    and e1: "errorsSeen (the_txn localOffWorld) = 0" "errors (the_txn localOffWorld) = None"
    by (simp_all add: example_world_defs Let_def)
  have g2: "ErrorCollector_Enabled (Config (the_txn remoteOffWorld)) \<and>
            \<not> CollectErrors (Reply (the_txn remoteOffWorld))"
    and e2: "errorsSeen (the_txn remoteOffWorld) = 0" "errors (the_txn remoteOffWorld) = None"
    by (simp_all add: example_world_defs Let_def)
  have g3: "ErrorCollector_Enabled (Config (the_txn exampleWorld)) \<and>
            CollectErrors (Reply (the_txn exampleWorld))"
    and e3: "errorsSeen (the_txn exampleWorld) = 0" "storedErrors (the_txn exampleWorld) = []"
      "HighSecurity (Config (the_txn exampleWorld))"
    by (simp_all add: example_world_defs Let_def storedErrors_def)
  from NoticeError_gates [OF u1, of exampleExternals 1100 "''stk''" "''boom''"] g1 e1
  have 1: "errorsSeen (the_txn (fst (NoticeError exampleExternals 1100 ''stk'' (Some ''boom'') localOffWorld))) = 1 \<and>
   snd (NoticeError exampleExternals 1100 ''stk'' (Some ''boom'') localOffWorld)
     = Returns (Some ErrorsLocallyDisabled) \<and>
   errors (the_txn (fst (NoticeError exampleExternals 1100 ''stk'' (Some ''boom'') localOffWorld))) = None"
    by simp
  from NoticeError_gates [OF u2, of exampleExternals 1100 "''stk''" "''boom''"] g2 e2
  have 2: "errorsSeen (the_txn (fst (NoticeError exampleExternals 1100 ''stk'' (Some ''boom'') remoteOffWorld))) = 1 \<and>
   snd (NoticeError exampleExternals 1100 ''stk'' (Some ''boom'') remoteOffWorld)
     = Returns (Some ErrorsRemotelyDisabled) \<and>
   errors (the_txn (fst (NoticeError exampleExternals 1100 ''stk'' (Some ''boom'') remoteOffWorld))) = None"
    by simp
  from NoticeError_gates [OF u3, of exampleExternals 1100 "''stk''" "''boom''"] g3 e3
  have 3: "errorsSeen (the_txn (fst (NoticeError exampleExternals 1100 ''stk'' (Some ''boom'') exampleWorld))) = 1 \<and>
   snd (NoticeError exampleExternals 1100 ''stk'' (Some ''boom'') exampleWorld) = Returns None \<and>
   errors (the_txn (fst (NoticeError exampleExternals 1100 ''stk'' (Some ''boom'') exampleWorld)))
     = Some (txnErrors_Add exampleExternals
              ((txnErrorFromError exampleExternals ''boom'')
                 \<lparr>stack := ''stk'', msg := HighSecurityErrorMsg, when' := 1100\<rparr>) [])"
    by simp
  from 1 2 3 show ?thesis by (simp add: exampleExternals_def exampleAdd_def)
qed

subsection \<open>High security\<close>

lemma noticeErrorInternal_redacted:
  assumes hs: "HighSecurity (Config t)"
    and add: "\<And>e xs. set (txnErrors_Add ext e xs) \<subseteq> insert e (set xs)"
    and red: "redacted t"
  shows "redacted (fst (noticeErrorInternal ext now e t))"
proof -
  let ?e = "e\<lparr>msg := HighSecurityErrorMsg, when' := now\<rparr>"
  have "set (txnErrors_Add ext ?e (storedErrors t)) \<subseteq> insert ?e (set (storedErrors t))"
    by (rule add)
  moreover have "msg ?e = HighSecurityErrorMsg" by simp
  ultimately have "\<forall>x\<in>set (txnErrors_Add ext ?e (storedErrors t)). msg x = HighSecurityErrorMsg"
    using red by (auto simp: redacted_def list_all_iff)
  with hs red show ?thesis
    by (simp add: noticeErrorInternal_eq redacted_def storedErrors_def list_all_iff)
qed

lemma redacted_cong: "errors t' = errors t \<Longrightarrow> redacted t' = redacted t"
  by (simp add: redacted_def storedErrors_def)

lemma perform_redacted:
  assumes hs: "HighSecurity (Config (the_txn wd))"
    and add: "\<And>e xs. set (txnErrors_Add ext e xs) \<subseteq> insert e (set xs)"
    and red: "redacted (the_txn wd)"
  shows "redacted (the_txn (fst (perform ext c wd)))"
proof -
  have nei: "redacted (fst (noticeErrorInternal ext now e t))"
    if "errors t = errors (the_txn wd)" "Config t = Config (the_txn wd)" for now e t
  proof -
    from that(1) have "redacted t = redacted (the_txn wd)" by (rule redacted_cong)
    with red have "redacted t" by simp
    moreover from that(2) hs have "HighSecurity (Config t)" by simp
    ultimately show ?thesis using add by (intro noticeErrorInternal_redacted)
  qed
  have via: "redacted t'"
    if "errors t' = errors (fst (noticeErrorInternal ext now e t))"
       "errors t = errors (the_txn wd)" "Config t = Config (the_txn wd)" for t' now e t
    using nei [OF that(2,3), of now e] redacted_cong [OF that(1)] by simp
  show ?thesis
  proof (cases c)
    case (CallSetName nm)
    have "errors (the_txn (fst (perform ext c wd))) = errors (the_txn wd)"
      by (simp add: CallSetName SetName_txn)
    from redacted_cong [OF this] red show ?thesis by simp
  next
    case (CallAddAttribute nm v)
    have "errors (the_txn (fst (perform ext c wd))) = errors (the_txn wd)"
      by (simp add: CallAddAttribute AddAttribute_txn)
    from redacted_cong [OF this] red show ?thesis by simp
  next
    case (CallNoticeError now stk err)
    with red show ?thesis by (cases err) (simp_all add: NoticeError_txn nei)
  next
    case (CallWrite now stk b)
    show ?thesis
    proof (cases "finished (the_txn wd) \<or> wroteHeader (the_txn wd) \<or>
                  \<not> responseCodeIsError (Config (the_txn wd)) 200")
      case True
      then have "errors (the_txn (fst (perform ext c wd))) = errors (the_txn wd)"
        by (simp add: CallWrite Write_txn headersJustWritten_errors)
      from redacted_cong [OF this] red show ?thesis by simp
    next
      case False
      then have "errors (the_txn (fst (perform ext c wd))) =
          errors (fst (noticeErrorInternal ext now ((txnErrorFromResponseCode ext 200)\<lparr>stack := stk\<rparr>)
                          ((the_txn wd)\<lparr>wroteHeader := True\<rparr>)))"
        by (simp add: CallWrite Write_txn headersJustWritten_errors)
      then show ?thesis by (rule via) simp_all
    qed
  next
    case (CallWriteHeader now stk code)
    show ?thesis
    proof (cases "finished (the_txn wd) \<or> wroteHeader (the_txn wd) \<or>
                  \<not> responseCodeIsError (Config (the_txn wd)) code")
      case True
      then have "errors (the_txn (fst (perform ext c wd))) = errors (the_txn wd)"
        by (simp add: CallWriteHeader WriteHeader_txn headersJustWritten_errors)
      from redacted_cong [OF this] red show ?thesis by simp
    next
      case False
      then have "errors (the_txn (fst (perform ext c wd))) =
          errors (fst (noticeErrorInternal ext now ((txnErrorFromResponseCode ext code)\<lparr>stack := stk\<rparr>)
                          ((the_txn wd)\<lparr>wroteHeader := True\<rparr>)))"
        by (simp add: CallWriteHeader WriteHeader_txn headersJustWritten_errors)
      then show ?thesis by (rule via) simp_all
    qed
  next
    case (CallEnd nowErr nowStop stk r)
    show ?thesis
    proof (cases "finished (the_txn wd) \<or> r = None")
      case True
      then have "errors (the_txn (fst (perform ext c wd))) = errors (the_txn wd)"
        by (auto simp: CallEnd End_errors)
      from redacted_cong [OF this] red show ?thesis by simp
    next
      case False
      then obtain v where "r = Some v" by auto
      with False have "errors (the_txn (fst (perform ext c wd))) =
          errors (fst (noticeErrorInternal ext nowErr ((txnErrorFromPanic ext v)\<lparr>stack := stk\<rparr>)
                          ((the_txn wd)\<lparr>finished := True\<rparr>)))"
        by (simp add: CallEnd End_errors)
      then show ?thesis by (rule via) simp_all
    qed
  qed
qed

lemma run_redacted:
  assumes add: "\<And>e xs. set (txnErrors_Add ext e xs) \<subseteq> insert e (set xs)"
  shows "HighSecurity (Config (the_txn wd)) \<Longrightarrow> redacted (the_txn wd) \<Longrightarrow>
         redacted (the_txn (fst (run ext cs wd)))"
proof (induction cs arbitrary: wd)
  case Nil
  then show ?case by simp
next
  case (Cons c cs)
  let ?wd1 = "fst (perform ext c wd)"
  from Cons.prems(1) perform_Config [of ext c wd]
  have hs: "HighSecurity (Config (the_txn ?wd1))" by simp
  have "redacted (the_txn ?wd1)"
    by (rule perform_redacted [OF Cons.prems(1) add Cons.prems(2)])
  from Cons.IH [OF hs this] show ?case by (simp only: run_Cons)
qed

text \<open>
  Claim C4.  With high security enabled, and a collection whose \<open>Add\<close> keeps only
  records it held or was given, every record stored in the error collection of a
  transaction carries the message \<open>HighSecurityErrorMsg\<close>, after every sequence of
  calls since \<open>newTxn\<close>.
\<close>

theorem high_security_redaction:
  assumes hs: "HighSecurity (in_Config input)"
    and add: "\<forall>e xs. set (txnErrors_Add ext e xs) \<subseteq> insert e (set xs)"
  shows "\<forall>e \<in> set (storedErrors (the_txn (fst (run ext cs (newWorld ext now input nm w))))).
           msg e = HighSecurityErrorMsg"
proof -
  have "HighSecurity (Config (the_txn (newWorld ext now input nm w)))"
    using hs by (simp add: newWorld_def newTxn_initial)
  moreover have "redacted (the_txn (newWorld ext now input nm w))"
    by (simp add: redacted_def storedErrors_def newWorld_def newTxn_initial)
  ultimately have "redacted (the_txn (fst (run ext cs (newWorld ext now input nm w))))"
    using add by (intro run_redacted) auto
  then show ?thesis by (simp add: redacted_def list_all_iff)
qed

theorem high_security_redaction_witness:
  "map msg (storedErrors (the_txn (fst (run exampleExternals
      [CallNoticeError 1100 ''stk'' (Some ''secret''), CallWriteHeader 1200 ''stk'' 500,
       CallEnd 1300 1400 ''stk'' (Some (AString ''password''))] exampleWorld))))
     = [HighSecurityErrorMsg, HighSecurityErrorMsg, HighSecurityErrorMsg]"
proof -
  let ?cs = "[CallNoticeError 1100 ''stk'' (Some ''secret''), CallWriteHeader 1200 ''stk'' 500,
       CallEnd 1300 1400 ''stk'' (Some (AString ''password''))]"
  let ?xs = "storedErrors (the_txn (fst (run exampleExternals ?cs exampleWorld)))"
  have hs: "HighSecurity (in_Config exampleInput)" by (simp add: exampleInput_def)
  have add: "\<forall>e xs. set (txnErrors_Add exampleExternals e xs) \<subseteq> insert e (set xs)"
    by (auto simp: exampleExternals_def exampleAdd_def)
  from high_security_redaction [OF hs add, of ?cs 1000 "''hello''" "[]"]
  have all: "\<forall>e\<in>set ?xs. msg e = HighSecurityErrorMsg"
    by (simp only: exampleWorld_def)
  have len: "length ?xs = 3"
    by (simp add: NoticeError_def WriteHeader_def End_def headersJustWritten_def
          noticeErrorInternal_def responseCodeIsError_def statusCodeLookup_def statusCodeTable_def
          freezeName_def getsApdex_def newTxnErrors_def
          storedErrors_def Let_def example_defs)
  from all have "map msg ?xs = replicate (length ?xs) HighSecurityErrorMsg"
    by (simp add: map_replicate_const [symmetric] cong: map_cong)
  with len show ?thesis by (simp add: numeral_3_eq_3)
qed

subsection \<open>Apdex zone at \<open>End\<close>\<close>

lemma End_txn:
  "\<not> finished (the_txn wd) \<Longrightarrow>
   the_txn (fst (End ext nowErr nowStop stk r wd)) =
     (let t2 = (case r of
                  None \<Rightarrow> (the_txn wd)\<lparr>finished := True\<rparr>
                | Some v \<Rightarrow> fst (noticeErrorInternal ext nowErr
                               ((txnErrorFromPanic ext v)\<lparr>stack := stk\<rparr>)
                               ((the_txn wd)\<lparr>finished := True\<rparr>)));
          t5 = freezeName ext
                 (t2\<lparr>stop := nowStop, duration := time_Sub nowStop (start t2)\<rparr>)
      in if isWeb t5 then
           t5\<lparr>apdexThreshold := calculateApdexThreshold ext (Reply t5) (finalName t5),
              zone := (if errorsSeen t5 > 0 then apdexFailing
                       else calculateApdexZone
                              (calculateApdexThreshold ext (Reply t5) (finalName t5))
                              (duration t5))\<rparr>
         else t5\<lparr>zone := apdexNone\<rparr>)"
  by (simp add: End_def Let_def getsApdex_def split: option.splits)

lemma freezeName_frame:
  "isWeb (freezeName ext t) = isWeb t"
  "errorsSeen (freezeName ext t) = errorsSeen t"
  "duration (freezeName ext t) = duration t"
  "Reply (freezeName ext t) = Reply t"
  "start (freezeName ext t) = start t"
  by (simp_all add: freezeName_def Let_def)

text \<open>
  Claim C5.  When \<open>End\<close> finalizes a web transaction whose error counter is not zero,
  the zone is \<open>apdexFailing\<close>, whatever the duration and the threshold.  For a web
  transaction whose error counter is zero the zone comes from the three bands: satisfying
  up to the threshold, tolerating up to four times the threshold, failing (the spec's
  frustrated) beyond.  For a transaction that is not web the zone is \<open>apdexNone\<close>.  The
  counter is the one \<open>End\<close> tests: the transaction's, plus one when \<open>End\<close> recovered a
  panic.
\<close>

theorem End_apdex_zone:
  fixes ext :: "'w externals" and wd :: "'w world"
    and nowErr nowStop :: time and stk :: string and r :: "any option"
  defines "t' \<equiv> the_txn (fst (End ext nowErr nowStop stk r wd))"
  assumes unfinished: "\<not> finished (the_txn wd)"
  shows "(isWeb (the_txn wd) \<and> errorsSeen t' > 0 \<longrightarrow> zone t' = apdexFailing) \<and>
         (isWeb (the_txn wd) \<and> errorsSeen t' = 0 \<longrightarrow>
            zone t' = (if duration t' \<le> apdexThreshold t' then apdexSatisfying
                       else if duration t' \<le> 4 * apdexThreshold t' then apdexTolerating
                       else apdexFailing)) \<and>
         (\<not> isWeb (the_txn wd) \<longrightarrow> zone t' = apdexNone) \<and>
         errorsSeen t' = errorsSeen (the_txn wd) + (case r of None \<Rightarrow> 0 | Some v \<Rightarrow> 1) \<and>
         duration t' = time_Sub nowStop (start (the_txn wd)) \<and>
         (isWeb (the_txn wd) \<longrightarrow>
            apdexThreshold t' = calculateApdexThreshold ext (Reply (the_txn wd)) (finalName t'))"
proof -
  define t2 where "t2 = (case r of
                  None \<Rightarrow> (the_txn wd)\<lparr>finished := True\<rparr>
                | Some v \<Rightarrow> fst (noticeErrorInternal ext nowErr
                               ((txnErrorFromPanic ext v)\<lparr>stack := stk\<rparr>)
                               ((the_txn wd)\<lparr>finished := True\<rparr>)))"
  define t5 where "t5 = freezeName ext (t2\<lparr>stop := nowStop, duration := time_Sub nowStop (start t2)\<rparr>)"
  have t': "t' = (if isWeb t5 then
           t5\<lparr>apdexThreshold := calculateApdexThreshold ext (Reply t5) (finalName t5),
              zone := (if errorsSeen t5 > 0 then apdexFailing
                       else calculateApdexZone
                              (calculateApdexThreshold ext (Reply t5) (finalName t5))
                              (duration t5))\<rparr>
         else t5\<lparr>zone := apdexNone\<rparr>)"
    using unfinished by (simp add: t'_def End_txn Let_def t5_def t2_def)
  have t2: "isWeb t2 = isWeb (the_txn wd)" "Reply t2 = Reply (the_txn wd)"
    "start t2 = start (the_txn wd)"
    "errorsSeen t2 = errorsSeen (the_txn wd) + (case r of None \<Rightarrow> 0 | Some v \<Rightarrow> 1)"
    by (simp_all add: t2_def noticeErrorInternal_frame split: option.splits)
  have t5: "isWeb t5 = isWeb (the_txn wd)" "Reply t5 = Reply (the_txn wd)"
    "duration t5 = time_Sub nowStop (start (the_txn wd))"
    "errorsSeen t5 = errorsSeen (the_txn wd) + (case r of None \<Rightarrow> 0 | Some v \<Rightarrow> 1)"
    by (simp_all add: t5_def freezeName_frame t2)
  show ?thesis
  proof (cases "isWeb (the_txn wd)")
    case True
    with t5 have "t' = t5\<lparr>apdexThreshold := calculateApdexThreshold ext (Reply t5) (finalName t5),
              zone := (if errorsSeen t5 > 0 then apdexFailing
                       else calculateApdexZone
                              (calculateApdexThreshold ext (Reply t5) (finalName t5))
                              (duration t5))\<rparr>"
      by (simp add: t')
    with True t5 show ?thesis by (simp add: calculateApdexZone_def word_gt_0)
  next
    case False
    with t5 have "t' = t5\<lparr>zone := apdexNone\<rparr>" by (simp add: t')
    with False t5 show ?thesis by simp
  qed
qed

theorem End_apdex_zone_witness:
  "zone (the_txn (fst (End exampleExternals 1300 1400 ''stk'' None
      (fst (NoticeError exampleExternals 1100 ''stk'' (Some ''boom'') exampleWorld)))))
     = apdexFailing \<and>
   zone (the_txn (fst (End exampleExternals 1300 1400 ''stk'' None exampleWorld))) = apdexSatisfying \<and>
   zone (the_txn (fst (End exampleExternals 1300 3000001000 ''stk'' None exampleWorld))) = apdexFailing \<and>
   zone (the_txn (fst (End exampleExternals 1300 1400 ''stk'' (Some (AString ''oops'')) backgroundWorld)))
     = apdexNone"
proof -
  let ?wd1 = "fst (NoticeError exampleExternals 1100 ''stk'' (Some ''boom'') exampleWorld)"
  have u0: "\<not> finished (the_txn exampleWorld)" by (rule exampleWorld_unfinished)
  have ub: "\<not> finished (the_txn backgroundWorld)" by (simp add: example_world_defs Let_def)
  have u1: "\<not> finished (the_txn ?wd1)"
    using u0 by (simp add: NoticeError_txn noticeErrorInternal_frame)
  have w1: "isWeb (the_txn ?wd1)" "errorsSeen (the_txn ?wd1) = 1"
    using u0 by (simp_all add: NoticeError_txn noticeErrorInternal_frame)
      (simp_all add: example_defs Let_def)
  have w0: "isWeb (the_txn exampleWorld)" "errorsSeen (the_txn exampleWorld) = 0"
    "start (the_txn exampleWorld) = 1000"
    by (simp_all add: example_defs Let_def)
  have wb: "\<not> isWeb (the_txn backgroundWorld)" by (simp add: example_world_defs Let_def)
  have thr: "calculateApdexThreshold exampleExternals rp nm = 500000000" for rp nm
    by (simp add: exampleExternals_def)
  from End_apdex_zone [OF u1, of exampleExternals 1300 1400 "''stk''" None] w1
  have 1: "zone (the_txn (fst (End exampleExternals 1300 1400 ''stk'' None ?wd1))) = apdexFailing"
    by simp
  from End_apdex_zone [OF u0, of exampleExternals 1300 1400 "''stk''" None] w0 thr
  have 2: "zone (the_txn (fst (End exampleExternals 1300 1400 ''stk'' None exampleWorld))) = apdexSatisfying"
    by (simp add: time_Sub_def)
  from End_apdex_zone [OF u0, of exampleExternals 1300 3000001000 "''stk''" None] w0 thr
  have 3: "zone (the_txn (fst (End exampleExternals 1300 3000001000 ''stk'' None exampleWorld))) = apdexFailing"
    by (simp add: time_Sub_def)
  from End_apdex_zone [OF ub, of exampleExternals 1300 1400 "''stk''" "Some (AString ''oops'')"] wb
  have 4: "zone (the_txn (fst (End exampleExternals 1300 1400 ''stk'' (Some (AString ''oops'')) backgroundWorld)))
     = apdexNone" by simp
  from 1 2 3 4 show ?thesis by simp
qed

subsection \<open>Header capture\<close>

lemma ignoreStatusCodes_loop_iff: "ignoreStatusCodes_loop code cs \<longleftrightarrow> code \<notin> set cs"
  by (induction cs) auto

lemma responseCodeIsError_iff:
  "responseCodeIsError cfg code \<longleftrightarrow>
     400 \<le> code \<and> code \<notin> set (ErrorCollector_IgnoreStatusCodes cfg)"
  by (auto simp: responseCodeIsError_def ignoreStatusCodes_loop_iff)

lemma headersJustWritten_first:
  assumes "\<not> finished t" "\<not> wroteHeader t"
  shows "headersJustWritten ext now stk w t code =
     (let h = Writer_Header ext w;
          t2 = t\<lparr>wroteHeader := True,
                 attrs := (attrs t)\<lparr>agent := (agent (attrs t))
                   \<lparr>ResponseHeadersContentType := h ''Content-Type'',
                    ResponseHeadersContentLength :=
                      (case (if h ''Content-Length'' = [] then None
                             else strconv_Atoi ext (h ''Content-Length'')) of
                         None \<Rightarrow> ResponseHeadersContentLength (agent (attrs t))
                       | Some x \<Rightarrow> x),
                    ResponseCode := (if statusCodeLookup code = [] then strconv_Itoa ext code
                                     else statusCodeLookup code)\<rparr>\<rparr>\<rparr>
      in if responseCodeIsError (Config t) code
         then fst (noticeErrorInternal ext now ((txnErrorFromResponseCode ext code)\<lparr>stack := stk\<rparr>) t2)
         else t2)"
  using assms by (simp add: headersJustWritten_def Let_def split: option.splits)

lemma headersJustWritten_wroteHeader:
  "\<not> finished t \<Longrightarrow> wroteHeader (headersJustWritten ext now stk w t code)"
  by (simp add: headersJustWritten_def Let_def noticeErrorInternal_frame)

lemma perform_header_written:
  assumes "wroteHeader (the_txn wd)" "isHeaderWrite c"
  shows "the_txn (fst (perform ext c wd)) = the_txn wd"
  using assms by (cases c) (simp_all add: Write_txn WriteHeader_txn headersJustWritten_done)

lemma run_header_written:
  "wroteHeader (the_txn wd) \<Longrightarrow> \<forall>c\<in>set cs. isHeaderWrite c \<Longrightarrow>
   the_txn (fst (run ext cs wd)) = the_txn wd"
proof (induction cs arbitrary: wd)
  case Nil
  then show ?case by simp
next
  case (Cons c cs)
  let ?wd1 = "fst (perform ext c wd)"
  from Cons.prems have same: "the_txn ?wd1 = the_txn wd"
    by (simp add: perform_header_written)
  with Cons.prems(1) have "wroteHeader (the_txn ?wd1)" by simp
  from Cons.IH [OF this] Cons.prems(2) same show ?case by (simp only: run_Cons) simp
qed

text \<open>
  Claim C6.  On a transaction that has not ended and whose headers have not been
  captured, \<open>WriteHeader\<close> with an error status (at least 400 and not in the ignore
  list) sets \<open>wroteHeader\<close>, records the response content type, content length and the
  status string, and passes one error record to \<open>noticeErrorInternal\<close>: the error
  counter grows by one, and the record reaches the collection's \<open>Add\<close> when both gates
  are open.  A second \<open>WriteHeader\<close>, and every later sequence of \<open>Write\<close> and
  \<open>WriteHeader\<close> calls, leaves the transaction as the first call left it.
\<close>

theorem WriteHeader_twice:
  fixes ext :: "'w externals" and wd :: "'w world" and now :: time and stk :: string and code :: int
  defines "t \<equiv> the_txn wd"
    and "wd1 \<equiv> fst (WriteHeader ext now stk code wd)"
    and "h \<equiv> Writer_Header ext (Writer_WriteHeader ext (writer wd) code)"
  assumes unfinished: "\<not> finished (the_txn wd)"
    and first: "\<not> wroteHeader (the_txn wd)"
    and status: "400 \<le> code" "code \<notin> set (ErrorCollector_IgnoreStatusCodes (Config (the_txn wd)))"
  shows "the_txn wd1 =
           fst (noticeErrorInternal ext now ((txnErrorFromResponseCode ext code)\<lparr>stack := stk\<rparr>)
                  (t\<lparr>wroteHeader := True,
                     attrs := (attrs t)\<lparr>agent := (agent (attrs t))
                       \<lparr>ResponseHeadersContentType := h ''Content-Type'',
                        ResponseHeadersContentLength :=
                          (case (if h ''Content-Length'' = [] then None
                                 else strconv_Atoi ext (h ''Content-Length'')) of
                             None \<Rightarrow> ResponseHeadersContentLength (agent (attrs t))
                           | Some x \<Rightarrow> x),
                        ResponseCode := (if statusCodeLookup code = [] then strconv_Itoa ext code
                                         else statusCodeLookup code)\<rparr>\<rparr>\<rparr>)) \<and>
         errorsSeen (the_txn wd1) = errorsSeen t + 1 \<and>
         errors (the_txn wd1) =
           (if ErrorCollector_Enabled (Config t) \<and> CollectErrors (Reply t)
            then Some (txnErrors_Add ext
                   ((txnErrorFromResponseCode ext code)
                      \<lparr>stack := stk,
                       msg := (if HighSecurity (Config t) then HighSecurityErrorMsg
                               else msg (txnErrorFromResponseCode ext code)),
                       when' := now\<rparr>)
                   (storedErrors t))
            else errors t) \<and>
         wroteHeader (the_txn wd1) \<and>
         the_txn (fst (WriteHeader ext now' stk' code' wd1)) = the_txn wd1 \<and>
         (\<forall>cs. (\<forall>c\<in>set cs. isHeaderWrite c) \<longrightarrow> the_txn (fst (run ext cs wd1)) = the_txn wd1)"
proof -
  from status have isErr: "responseCodeIsError (Config t) code"
    by (simp add: responseCodeIsError_iff t_def)
  have eq: "the_txn wd1 =
           fst (noticeErrorInternal ext now ((txnErrorFromResponseCode ext code)\<lparr>stack := stk\<rparr>)
                  (t\<lparr>wroteHeader := True,
                     attrs := (attrs t)\<lparr>agent := (agent (attrs t))
                       \<lparr>ResponseHeadersContentType := h ''Content-Type'',
                        ResponseHeadersContentLength :=
                          (case (if h ''Content-Length'' = [] then None
                                 else strconv_Atoi ext (h ''Content-Length'')) of
                             None \<Rightarrow> ResponseHeadersContentLength (agent (attrs t))
                           | Some x \<Rightarrow> x),
                        ResponseCode := (if statusCodeLookup code = [] then strconv_Itoa ext code
                                         else statusCodeLookup code)\<rparr>\<rparr>\<rparr>))"
    using unfinished first isErr unfolding wd1_def t_def h_def
    by (simp add: WriteHeader_txn headersJustWritten_first Let_def)
  have seen: "errorsSeen (the_txn wd1) = errorsSeen t + 1"
    by (simp add: eq noticeErrorInternal_frame)
  have errs: "errors (the_txn wd1) =
           (if ErrorCollector_Enabled (Config t) \<and> CollectErrors (Reply t)
            then Some (txnErrors_Add ext
                   ((txnErrorFromResponseCode ext code)
                      \<lparr>stack := stk,
                       msg := (if HighSecurity (Config t) then HighSecurityErrorMsg
                               else msg (txnErrorFromResponseCode ext code)),
                       when' := now\<rparr>)
                   (storedErrors t))
            else errors t)"
    by (simp add: eq noticeErrorInternal_eq storedErrors_def)
  have wrote: "wroteHeader (the_txn wd1)"
    using unfinished by (simp add: wd1_def WriteHeader_txn headersJustWritten_wroteHeader)
  have again: "the_txn (fst (WriteHeader ext now' stk' code' wd1)) = the_txn wd1"
    using wrote by (simp add: WriteHeader_txn headersJustWritten_done)
  have later: "\<forall>cs. (\<forall>c\<in>set cs. isHeaderWrite c) \<longrightarrow> the_txn (fst (run ext cs wd1)) = the_txn wd1"
    using run_header_written [OF wrote] by blast
  from eq seen errs wrote again later show ?thesis by blast
qed


theorem WriteHeader_twice_witness:
  "errorsSeen (the_txn (fst (WriteHeader exampleExternals 1200 ''stk'' 404
      (fst (WriteHeader exampleExternals 1100 ''stk'' 404 exampleWorld))))) = 1 \<and>
   map msg (storedErrors (the_txn (fst (WriteHeader exampleExternals 1200 ''stk'' 404
      (fst (WriteHeader exampleExternals 1100 ''stk'' 404 exampleWorld))))))
     = [HighSecurityErrorMsg] \<and>
   ResponseCode (agent (attrs (the_txn (fst (WriteHeader exampleExternals 1200 ''stk'' 404
      (fst (WriteHeader exampleExternals 1100 ''stk'' 404 exampleWorld))))))) = ''404'' \<and>
   ResponseHeadersContentLength (agent (attrs (the_txn (fst (WriteHeader exampleExternals 1200 ''stk'' 404
      (fst (WriteHeader exampleExternals 1100 ''stk'' 404 exampleWorld))))))) = 12"
proof -
  let ?wd1 = "fst (WriteHeader exampleExternals 1100 ''stk'' 404 exampleWorld)"
  let ?wd2 = "fst (WriteHeader exampleExternals 1200 ''stk'' 404 ?wd1)"
  have first: "\<not> wroteHeader (the_txn exampleWorld)" by (simp add: example_defs Let_def)
  have s1: "(400::int) \<le> 404" by simp
  have s2: "404 \<notin> set (ErrorCollector_IgnoreStatusCodes (Config (the_txn exampleWorld)))"
    by (simp add: example_defs Let_def)
  have init: "errorsSeen (the_txn exampleWorld) = 0" "storedErrors (the_txn exampleWorld) = []"
    "ErrorCollector_Enabled (Config (the_txn exampleWorld))"
    "CollectErrors (Reply (the_txn exampleWorld))" "HighSecurity (Config (the_txn exampleWorld))"
    by (simp_all add: example_defs Let_def storedErrors_def)
  have hdr: "Writer_Header exampleExternals w ''Content-Length'' = ''12''"
    "strconv_Atoi exampleExternals ''12'' = Some 12" for w
    by (simp_all add: exampleExternals_def)
  have look: "statusCodeLookup 404 = ''404''"
    by (simp add: statusCodeLookup_def statusCodeTable_def)
  note inst = WriteHeader_twice [where ext = exampleExternals and wd = exampleWorld
      and now = 1100 and stk = "''stk''" and code = 404
      and now' = 1200 and stk' = "''stk''" and code' = 404,
      OF exampleWorld_unfinished first s1 s2]
  note eq = inst [THEN conjunct1]
  note counted = inst [THEN conjunct2, THEN conjunct1]
  note kept = inst [THEN conjunct2, THEN conjunct2, THEN conjunct1]
  note again = inst [THEN conjunct2, THEN conjunct2, THEN conjunct2, THEN conjunct2, THEN conjunct1]
  from again have same: "the_txn ?wd2 = the_txn ?wd1" .
  from counted init have seen: "errorsSeen (the_txn ?wd1) = 1" by simp
  from kept init have errs: "errors (the_txn ?wd1) =
      Some (txnErrors_Add exampleExternals
              ((txnErrorFromResponseCode exampleExternals 404)
                 \<lparr>stack := ''stk'', msg := HighSecurityErrorMsg, when' := 1100\<rparr>) [])"
    by simp
  then have stored: "map msg (storedErrors (the_txn ?wd1)) = [HighSecurityErrorMsg]"
    by (simp add: storedErrors_def exampleExternals_def exampleAdd_def)
  have at: "ResponseCode (agent (attrs (the_txn ?wd1))) = ''404''"
    "ResponseHeadersContentLength (agent (attrs (the_txn ?wd1))) = 12"
    by (simp_all add: eq noticeErrorInternal_frame hdr look)
  from same seen stored at show ?thesis by simp
qed

end
